theory Spec2Isabelle
  imports Main "HOL-Library.Word"
begin

section \<open>Data model of the data node coordinator\<close>

text \<open>
  The model follows \<^verbatim>\<open>cluster/datanode_coord/data_node_coordinator.go\<close>.
  Go's \<^verbatim>\<open>uint64\<close> is a 64-bit word, \<^verbatim>\<open>int32\<close> a 32-bit word read with
  \<open>sint\<close>, and \<^verbatim>\<open>int\<close> (lengths, \<^verbatim>\<open>Replica\<close>, \<^verbatim>\<open>Partition\<close>) an integer.
  A Go map is an association list: \<open>map_of\<close> is the lookup with \<^verbatim>\<open>ok\<close>, and the
  order of the list is the order in which one \<^verbatim>\<open>range\<close> loop happens to visit the
  entries. A theorem that holds for every list therefore holds for every iteration order.
\<close>

type_synonym uint64 = "64 word"
type_synonym int32 = "32 word"

text \<open>\<^verbatim>\<open>common.MemberInfo\<close>, as the peer API carries it.\<close>

record MemberInfo =
  ID :: uint64
  NodeID :: uint64
  GroupID :: uint64
  GroupName :: string
  RaftURLs :: "string list"

text \<open>\<^verbatim>\<open>cluster.NodeInfo\<close>; \<^verbatim>\<open>GetID()\<close> reads the field \<open>node_ID\<close>.\<close>

record NodeInfo =
  node_ID :: string
  RegID :: uint64
  NodeIP :: string
  HttpPort :: string
  RaftTransportAddr :: string
  DataRoot :: string
  RsyncModule :: string

record RemovingInfo =
  RemoveTime :: int
  RemoveReplicaID :: uint64

text \<open>
  \<^verbatim>\<open>cluster.PartitionMetaInfo\<close>. The type is declared outside the coordinator's file;
  its fields are the ones the coordinator reads, and \<open>ISR\<close> the list that the
  spec's data model gives a partition.
\<close>

record PartitionMetaInfo =
  Name :: string
  Partition :: int
  Replica :: int
  PartitionNum :: int
  MinGID :: int
  EngType :: string
  MagicCode :: int
  RaftNodes :: "string list"
  ISR :: "string list"
  RaftIDs :: "(string \<times> uint64) list"
  Removings :: "(string \<times> RemovingInfo) list"

text \<open>The sentinel \<^verbatim>\<open>ErrKeyNotFound\<close> and any other error of the registry.\<close>

datatype RegError = ErrKeyNotFound | RegErr string

datatype CoordErr =
    ErrNamespaceConfInvalid
  | ErrNamespaceNotReady
  | ErrNamespaceNotCreated
  | ErrNamespaceWaitingSync
  | ErrNamespaceExiting
  | ErrCatchupRunningBusy
  | ErrLocalInitNamespaceFailed
  | CoordLocalErr string
  | CoordRegisterErr string

text \<open>A run-time panic of the Go program.\<close>

datatype Panic = NilDereference | DivideByZero | CloseOfClosedChannel

text \<open>
  What the coordinator asks of its collaborators that its own file does not define:
  the two decoders of a node id of package \<^verbatim>\<open>cluster\<close>, the split of a local replica's
  name, and the peers' answers to \<^verbatim>\<open>GET /cluster/members/{desp}\<close>, addressed by the
  ip and http port that \<^verbatim>\<open>ExtractNodeInfoFromID\<close> returns (an error is the message of
  a failed request).
\<close>

record Cluster =
  ExtractRegIDFromGenID :: "string \<Rightarrow> uint64"
  ExtractNodeInfoFromID :: "string \<Rightarrow> string \<times> string \<times> string \<times> string"
  GetNamespaceAndPartition :: "string \<Rightarrow> string \<times> int"
  APIGetMembers :: "string \<Rightarrow> string \<Rightarrow> string \<Rightarrow> string + MemberInfo list"

text \<open>\<^verbatim>\<open>strconv.Itoa\<close>: the decimal digits of an integer, with a minus sign.\<close>

fun digits :: "nat \<Rightarrow> string" where
  "digits n =
     (if n < 10 then [char_of (48 + n)]
      else digits (n div 10) @ [char_of (48 + n mod 10)])"

declare digits.simps [simp del]

definition Itoa :: "int \<Rightarrow> string" where
  "Itoa i = (if i < 0 then CHR ''-'' # digits (nat (- i)) else digits (nat i))"

text \<open>
  Modelled from the spec: \<^verbatim>\<open>GetDesp()\<close> of package \<^verbatim>\<open>cluster\<close> is not in the
  coordinator's file; the spec gives \<^verbatim>\<open>Desp = Namespace + "-" + Partition\<close>.
\<close>

definition GetDesp :: "PartitionMetaInfo \<Rightarrow> string" where
  "GetDesp ns = Name ns @ ''-'' @ Itoa (Partition ns)"

text \<open>
  Modelled from the spec: \<^verbatim>\<open>GetISR()\<close> of package \<^verbatim>\<open>cluster\<close> is not in the
  coordinator's file; the spec's data model has \<^verbatim>\<open>ISR\<close>, the ordered sequence of the
  in-sync replicas, beside \<^verbatim>\<open>RaftNodes\<close>.
\<close>

definition GetISR :: "PartitionMetaInfo \<Rightarrow> string list" where
  "GetISR ns = ISR ns"

text \<open>
  Modelled from the spec: \<^verbatim>\<open>FindSlice\<close> of package \<^verbatim>\<open>cluster\<close> is not in the
  coordinator's file; the spec reads \<^verbatim>\<open>FindSlice(list, self) != -1\<close> as "self is in the
  list". It is the index of the first occurrence, \<open>-1\<close> when there is none.
\<close>

fun FindSlice_from :: "int \<Rightarrow> string list \<Rightarrow> string \<Rightarrow> int" where
  "FindSlice_from i [] e = - 1"
| "FindSlice_from i (x # xs) e = (if x = e then i else FindSlice_from (i + 1) xs e)"

definition FindSlice :: "string list \<Rightarrow> string \<Rightarrow> int" where
  "FindSlice xs e = FindSlice_from 0 xs e"

text \<open>A map read without \<^verbatim>\<open>ok\<close> gives the zero value for a missing key.\<close>

definition lookup0 :: "(string \<times> uint64) list \<Rightarrow> string \<Rightarrow> uint64" where
  "lookup0 m k = (case map_of m k of None \<Rightarrow> 0 | Some v \<Rightarrow> v)"

section \<open>Placement predicates\<close>

text \<open>The inner loop of \<^verbatim>\<open>isMeInRaftGroup\<close> over one peer's answer.\<close>

fun rspHasMe :: "uint64 \<Rightarrow> uint64 \<Rightarrow> MemberInfo list \<Rightarrow> bool" where
  "rspHasMe regID raftID [] = False"
| "rspHasMe regID raftID (m # rsp) =
     (if NodeID m = regID \<and> ID m = raftID then True else rspHasMe regID raftID rsp)"

text \<open>
  The request of \<^verbatim>\<open>isMeInRaftGroup\<close> to one peer: \<^verbatim>\<open>GET\<close> of the members of the
  partition at the peer's ip and http port.
\<close>

definition peerMembers :: "Cluster \<Rightarrow> PartitionMetaInfo \<Rightarrow> string \<Rightarrow> string + MemberInfo list" where
  "peerMembers cl ns remoteNode =
     (case ExtractNodeInfoFromID cl remoteNode of (nip, _, _, httpPort) \<Rightarrow>
        APIGetMembers cl nip httpPort (GetDesp ns))"

text \<open>
  \<^verbatim>\<open>isMeInRaftGroup\<close>: the loop over \<^verbatim>\<open>GetISR()\<close>, carrying \<^verbatim>\<open>lastErr\<close>.
\<close>

fun isMeInRaftGroup_loop ::
  "Cluster \<Rightarrow> NodeInfo \<Rightarrow> PartitionMetaInfo \<Rightarrow> string list \<Rightarrow> string option
    \<Rightarrow> bool \<times> string option" where
  "isMeInRaftGroup_loop cl me ns [] lastErr = (False, lastErr)"
| "isMeInRaftGroup_loop cl me ns (remoteNode # rest) lastErr =
     (if remoteNode = node_ID me then isMeInRaftGroup_loop cl me ns rest lastErr
      else (case peerMembers cl ns remoteNode of
           Inl err \<Rightarrow> isMeInRaftGroup_loop cl me ns rest (Some err)
         | Inr rsp \<Rightarrow>
             if rspHasMe (RegID me) (lookup0 (RaftIDs ns) (node_ID me)) rsp
             then (True, lastErr)
             else isMeInRaftGroup_loop cl me ns rest lastErr))"

definition isMeInRaftGroup :: "Cluster \<Rightarrow> NodeInfo \<Rightarrow> PartitionMetaInfo \<Rightarrow> bool \<times> string option" where
  "isMeInRaftGroup cl me ns = isMeInRaftGroup_loop cl me ns (GetISR ns) None"

text \<open>\<^verbatim>\<open>isNamespaceShouldStart\<close>; \<^verbatim>\<open>shouldLoad\<close> is \<^verbatim>\<open>FindSlice(...) != -1\<close>.\<close>

definition isNamespaceShouldStart :: "Cluster \<Rightarrow> NodeInfo \<Rightarrow> PartitionMetaInfo \<Rightarrow> bool" where
  "isNamespaceShouldStart cl me nsInfo =
     (if \<not> (FindSlice (RaftNodes nsInfo) (node_ID me) \<noteq> - 1) then False
      else (case map_of (Removings nsInfo) (node_ID me) of
          None \<Rightarrow> True
        | Some rm \<Rightarrow>
            if RemoveReplicaID rm \<noteq> lookup0 (RaftIDs nsInfo) (node_ID me) then True
            else fst (isMeInRaftGroup cl me nsInfo)))"

text \<open>
  \<^verbatim>\<open>isNamespaceShouldStop\<close>, statement by statement; its second parameter, the local
  replica, is not read. The last \<^verbatim>\<open>return\<close> of the source, after the log line of the
  removed node, is \<^verbatim>\<open>return false\<close>.
\<close>

definition isNamespaceShouldStop :: "Cluster \<Rightarrow> NodeInfo \<Rightarrow> PartitionMetaInfo \<Rightarrow> bool" where
  "isNamespaceShouldStop cl me nsInfo =
     (case map_of (Removings nsInfo) (node_ID me) of
        None \<Rightarrow> False
      | Some rm \<Rightarrow>
          if RemoveReplicaID rm \<noteq> lookup0 (RaftIDs nsInfo) (node_ID me) then False
          else (case isMeInRaftGroup cl me nsInfo of (inRaft, err) \<Rightarrow>
            if inRaft \<or> err \<noteq> None then False else False))"

section \<open>Collaborators and effects\<close>

text \<open>
  A local replica (\<^verbatim>\<open>node.NamespaceNode\<close>) as the coordinator observes it during one
  pass: what its queries return, and whether a proposal or a call fails (an error
  message). \<^verbatim>\<open>localNamespace.Node.X\<close> and \<^verbatim>\<open>localNamespace.X\<close> read the same replica.
\<close>

record NamespaceNode =
  FullName :: string
  GetMembers :: "MemberInfo list"
  GetLeadMember :: "MemberInfo option"
  GetLocalMemberInfo :: MemberInfo
  IsReady :: bool
  FillMyMemberInfo :: "MemberInfo \<Rightarrow> MemberInfo"
  ProposeRemoveMemberErr :: "MemberInfo \<Rightarrow> string option"

text \<open>\<^verbatim>\<open>node.NamespaceMgr\<close>: the lookup by name and the table of running replicas.\<close>

record NamespaceMgr =
  GetNamespaceNode :: "string \<Rightarrow> NamespaceNode option"
  GetNamespaces :: "(string \<times> NamespaceNode) list"

record NamespaceMetaInfo =
  MetaPartitionNum :: int
  MetaReplica :: int

text \<open>
  The registry (\<^verbatim>\<open>DataNodeRegister\<close>). \<^verbatim>\<open>GetAllNamespaces\<close> returns the table and an
  error, as the Go call does (the epoch it also returns is never read).
\<close>

record DataNodeRegister =
  GetNodeInfo :: "string \<Rightarrow> string + NodeInfo"
  GetNamespacePartInfo :: "string \<Rightarrow> int \<Rightarrow> RegError + PartitionMetaInfo"
  GetNamespaceMetaInfo :: "string \<Rightarrow> RegError + NamespaceMetaInfo"
  GetAllNamespaces :: "(string \<times> (int \<times> PartitionMetaInfo) list) list \<times> RegError option"

text \<open>
  The coordinator. \<open>register\<close> is \<open>None\<close> for the nil interface that
  \<^verbatim>\<open>NewDataCoordinator\<close> leaves; \<open>stopChanClosed\<close> says whether \<^verbatim>\<open>stopChan\<close> has been
  closed.
\<close>

record DataCoordinator =
  clusterKey :: string
  register :: "DataNodeRegister option"
  myNode :: NodeInfo
  stopChanClosed :: bool
  stopping :: int32
  catchupRunning :: int32
  localNSMgr :: NamespaceMgr

text \<open>\<^verbatim>\<open>NewDataCoordinator\<close>: no register, an open \<^verbatim>\<open>stopChan\<close>, both counters zero.\<close>

definition NewDataCoordinator :: "string \<Rightarrow> NodeInfo \<Rightarrow> NamespaceMgr \<Rightarrow> DataCoordinator" where
  "NewDataCoordinator cluster nodeInfo nsMgr =
     \<lparr>clusterKey = cluster, register = None, myNode = nodeInfo, stopChanClosed = False,
      stopping = 0, catchupRunning = 0, localNSMgr = nsMgr\<rparr>"

text \<open>
  The calls a function makes on its collaborators, in order. A replica is named by its
  \<open>FullName\<close>; \<open>PostAddNode\<close> is the \<^verbatim>\<open>POST /cluster/addnode\<close> to a peer's ip and
  http port; \<open>TryCheckNamespaces\<close> is a call (or a \<^verbatim>\<open>go\<close>) of \<^verbatim>\<open>tryCheckNamespaces\<close>,
  the debounced nudge of the main loop.
\<close>

datatype Event =
    ProposeAddMember string MemberInfo
  | ProposeRemoveMember string MemberInfo
  | TransferMyLeader string uint64 uint64
  | TryCheckNamespaces
  | Destroy string
  | CloseNode string
  | PostAddNode string string MemberInfo
  | SetDynamicInfo string
  | SetDataFixState string bool
  | NSMgrStop
  | Unregister
  | RegisterStop

definition MAX_RAFT_JOIN_RUNNING :: int where
  "MAX_RAFT_JOIN_RUNNING = 5"

section \<open>Membership reconciler\<close>

text \<open>The loop of \<^verbatim>\<open>addNamespaceRaftMember\<close> over \<^verbatim>\<open>Removings\<close>, up to its \<^verbatim>\<open>return\<close>.\<close>

fun markedRemoving :: "Cluster \<Rightarrow> MemberInfo \<Rightarrow> (string \<times> RemovingInfo) list \<Rightarrow> bool" where
  "markedRemoving cl m [] = False"
| "markedRemoving cl m ((nid, removing) # rest) =
     (if ID m = RemoveReplicaID removing \<and> NodeID m = ExtractRegIDFromGenID cl nid then True
      else markedRemoving cl m rest)"

definition addNamespaceRaftMember ::
  "Cluster \<Rightarrow> NamespaceMgr \<Rightarrow> PartitionMetaInfo \<Rightarrow> MemberInfo \<Rightarrow> Event list" where
  "addNamespaceRaftMember cl mgr nsInfo m =
     (if markedRemoving cl m (Removings nsInfo) then []
      else (case GetNamespaceNode mgr (GetDesp nsInfo) of
          None \<Rightarrow> []
        | Some nsNode \<Rightarrow> [ProposeAddMember (FullName nsNode) m]))"

definition removeNamespaceRaftMember ::
  "NamespaceMgr \<Rightarrow> PartitionMetaInfo \<Rightarrow> MemberInfo \<Rightarrow> Event list" where
  "removeNamespaceRaftMember mgr nsInfo m =
     (case GetNamespaceNode mgr (GetDesp nsInfo) of
        None \<Rightarrow> []
      | Some nsNode \<Rightarrow> [ProposeRemoveMember (FullName nsNode) m])"

text \<open>A nil slice has length 0 and no element, as the empty list.\<close>

definition getNamespaceRaftMembers :: "NamespaceMgr \<Rightarrow> PartitionMetaInfo \<Rightarrow> MemberInfo list" where
  "getNamespaceRaftMembers mgr nsInfo =
     (case GetNamespaceNode mgr (GetDesp nsInfo) of
        None \<Rightarrow> []
      | Some nsNode \<Rightarrow> GetMembers nsNode)"

definition getNamespaceRaftLeader :: "NamespaceMgr \<Rightarrow> PartitionMetaInfo \<Rightarrow> uint64" where
  "getNamespaceRaftLeader mgr nsInfo =
     (case GetNamespaceNode mgr (GetDesp nsInfo) of
        None \<Rightarrow> 0
      | Some nsNode \<Rightarrow> (case GetLeadMember nsNode of None \<Rightarrow> 0 | Some m \<Rightarrow> NodeID m))"

definition transferMyNamespaceLeader ::
  "Cluster \<Rightarrow> NamespaceMgr \<Rightarrow> PartitionMetaInfo \<Rightarrow> string \<Rightarrow> Event list" where
  "transferMyNamespaceLeader cl mgr nsInfo nid =
     (case GetNamespaceNode mgr (GetDesp nsInfo) of
        None \<Rightarrow> []
      | Some nsNode \<Rightarrow>
          (case map_of (RaftIDs nsInfo) nid of
             None \<Rightarrow> []
           | Some toRaftID \<Rightarrow>
               [TransferMyLeader (FullName nsNode) (ExtractRegIDFromGenID cl nid) toRaftID]))"

definition forceRemoveLocalNamespace :: "NamespaceNode \<Rightarrow> Event list" where
  "forceRemoveLocalNamespace localNamespace = [Destroy (FullName localNamespace)]"

text \<open>
  \<^verbatim>\<open>removeLocalNamespaceFromRaft\<close>, for a replica that is not nil (every caller passes an
  entry of the manager's table or the result of a lookup it has checked).
\<close>

definition removeLocalNamespaceFromRaft ::
  "NamespaceNode \<Rightarrow> bool \<Rightarrow> CoordErr option \<times> Event list" where
  "removeLocalNamespaceFromRaft localNamespace removeData =
     (if removeData then
        (if \<not> IsReady localNamespace then (Some ErrNamespaceNotReady, [])
         else (let m = GetLocalMemberInfo localNamespace in
           (case ProposeRemoveMemberErr localNamespace m of
              Some localErr \<Rightarrow>
                (Some (CoordLocalErr localErr), [ProposeRemoveMember (FullName localNamespace) m])
            | None \<Rightarrow> (None, [ProposeRemoveMember (FullName localNamespace) m]))))
      else (None, [CloseNode (FullName localNamespace)]))"

definition getRaftAddrForNode :: "DataNodeRegister \<Rightarrow> string \<Rightarrow> CoordErr + string" where
  "getRaftAddrForNode r nid =
     (case GetNodeInfo r nid of
        Inl err \<Rightarrow> Inl (CoordRegisterErr err)
      | Inr node \<Rightarrow> Inr (RaftTransportAddr node))"

text \<open>The search \<^verbatim>\<open>for _, m := range members { if m.ID == rid { found = true; break } }\<close>.\<close>

fun memberWithID :: "MemberInfo list \<Rightarrow> uint64 \<Rightarrow> bool" where
  "memberWithID [] rid = False"
| "memberWithID (m # members) rid = (if ID m = rid then True else memberWithID members rid)"

text \<open>
  The first loop of the member sync of \<^verbatim>\<open>doWork\<close>, over \<^verbatim>\<open>RaftIDs\<close>: the result is
  \<^verbatim>\<open>anyJoined\<close> and the calls made.
\<close>

fun addMissingMembers ::
  "Cluster \<Rightarrow> DataNodeRegister \<Rightarrow> NamespaceMgr \<Rightarrow> PartitionMetaInfo \<Rightarrow> MemberInfo list
    \<Rightarrow> (string \<times> uint64) list \<Rightarrow> bool \<Rightarrow> bool \<times> Event list" where
  "addMissingMembers cl r mgr namespaceMeta members [] anyJoined = (anyJoined, [])"
| "addMissingMembers cl r mgr namespaceMeta members ((nid, rid) # rest) anyJoined =
     (if memberWithID members rid
      then addMissingMembers cl r mgr namespaceMeta members rest anyJoined
      else (let m = \<lparr>ID = rid, NodeID = ExtractRegIDFromGenID cl nid,
                      GroupID = word_of_int (MinGID namespaceMeta)
                                + word_of_int (Partition namespaceMeta),
                      GroupName = GetDesp namespaceMeta, RaftURLs = []\<rparr>;
                evs = (case getRaftAddrForNode r nid of
                         Inl err \<Rightarrow> []
                       | Inr raddr \<Rightarrow>
                           addNamespaceRaftMember cl mgr namespaceMeta
                             (m\<lparr>RaftURLs := RaftURLs m @ [raddr]\<rparr>));
                rec = addMissingMembers cl r mgr namespaceMeta members rest True
            in (fst rec, evs @ snd rec)))"

text \<open>The search of the second loop: some \<^verbatim>\<open>RaftIDs\<close> entry has the member's id.\<close>

fun raftIDsHas :: "(string \<times> uint64) list \<Rightarrow> MemberInfo \<Rightarrow> bool" where
  "raftIDsHas [] m = False"
| "raftIDsHas ((nid, rid) # rest) m = (if ID m = rid then True else raftIDsHas rest m)"

text \<open>The loop over \<^verbatim>\<open>Removings\<close> of the second loop: it has no \<^verbatim>\<open>break\<close>.\<close>

fun removeMarked ::
  "Cluster \<Rightarrow> NamespaceMgr \<Rightarrow> PartitionMetaInfo \<Rightarrow> MemberInfo \<Rightarrow> (string \<times> RemovingInfo) list
    \<Rightarrow> Event list" where
  "removeMarked cl mgr namespaceMeta m [] = []"
| "removeMarked cl mgr namespaceMeta m ((nid, removing) # rest) =
     (if ID m = RemoveReplicaID removing \<and> NodeID m = ExtractRegIDFromGenID cl nid
      then removeNamespaceRaftMember mgr namespaceMeta m
      else [])
     @ removeMarked cl mgr namespaceMeta m rest"

fun removeExtraMembers ::
  "Cluster \<Rightarrow> NamespaceMgr \<Rightarrow> PartitionMetaInfo \<Rightarrow> MemberInfo list \<Rightarrow> Event list" where
  "removeExtraMembers cl mgr namespaceMeta [] = []"
| "removeExtraMembers cl mgr namespaceMeta (m # members) =
     (if \<not> raftIDsHas (RaftIDs namespaceMeta) m
      then removeNamespaceRaftMember mgr namespaceMeta m
      else removeMarked cl mgr namespaceMeta m (Removings namespaceMeta))
     @ removeExtraMembers cl mgr namespaceMeta members"

text \<open>
  The member sync: the \<^verbatim>\<open>else\<close> branch of \<^verbatim>\<open>doWork\<close> at line 470, with
  \<^verbatim>\<open>isReplicasEnough\<close> as computed before it.
\<close>

definition syncMembers ::
  "Cluster \<Rightarrow> DataNodeRegister \<Rightarrow> NamespaceMgr \<Rightarrow> PartitionMetaInfo \<Rightarrow> bool \<Rightarrow> Event list" where
  "syncMembers cl r mgr namespaceMeta isReplicasEnough =
     (let members = getNamespaceRaftMembers mgr namespaceMeta;
          added = addMissingMembers cl r mgr namespaceMeta members (RaftIDs namespaceMeta) False;
          anyJoined = fst added
      in if anyJoined \<or> int (length members) \<le> Replica namespaceMeta \<or> \<not> isReplicasEnough
         then snd added @ [TryCheckNamespaces]
         else snd added @ removeExtraMembers cl mgr namespaceMeta members)"

text \<open>
  The body of the loop of \<^verbatim>\<open>doWork\<close> over the running replicas (lines 423 to 530),
  for one entry \<open>(name, localNamespace)\<close> of the manager's table. \<^verbatim>\<open>doWork\<close> runs
  in the main loop, which dereferences \<^verbatim>\<open>self.register\<close> before its first pass: \<open>r\<close>
  is that register.
\<close>

definition checkNamespace ::
  "Cluster \<Rightarrow> NodeInfo \<Rightarrow> DataNodeRegister \<Rightarrow> NamespaceMgr \<Rightarrow> string \<Rightarrow> NamespaceNode
    \<Rightarrow> Event list" where
  "checkNamespace cl me r mgr name localNamespace =
     (case GetNamespaceAndPartition cl name of (namespace, pid) \<Rightarrow>
      if namespace = [] then []
      else (case GetNamespacePartInfo r namespace pid of
          Inl err \<Rightarrow>
            (if err = ErrKeyNotFound then
               (case GetNamespaceMetaInfo r namespace of
                  Inl err2 \<Rightarrow>
                    if err2 = ErrKeyNotFound
                    then snd (removeLocalNamespaceFromRaft localNamespace True)
                         @ forceRemoveLocalNamespace localNamespace
                    else []
                | Inr meta \<Rightarrow> [])
             else [])
            @ [TryCheckNamespaces]
        | Inr namespaceMeta \<Rightarrow>
            if isNamespaceShouldStop cl me namespaceMeta
            then forceRemoveLocalNamespace localNamespace
            else (let leader = getNamespaceRaftLeader mgr namespaceMeta in
              if leader = 0 then []
              else (let isrList = GetISR namespaceMeta in
                if FindSlice isrList (node_ID me) = - 1 then
                  (if length isrList > 0
                   then snd (removeLocalNamespaceFromRaft localNamespace True)
                   else [])
                else if leader \<noteq> RegID me \<or> length isrList = 0 then []
                else (let isReplicasEnough = (int (length isrList) \<ge> Replica namespaceMeta) in
                  if isReplicasEnough \<and> isrList ! 0 \<noteq> node_ID me
                  then transferMyNamespaceLeader cl mgr namespaceMeta (isrList ! 0)
                  else syncMembers cl r mgr namespaceMeta isReplicasEnough)))))"

section \<open>Replica configuration\<close>

record ReplicaInfo =
  SeedNodeID :: uint64
  ReplicaID :: uint64
  RaftAddr :: string

text \<open>
  The fields of \<^verbatim>\<open>node.NamespaceConfig\<close> that \<^verbatim>\<open>prepareNamespaceConf\<close> assigns
  (\<open>ConfGroupID\<close> and \<open>SeedNodes\<close> are those of its \<^verbatim>\<open>RaftGroupConf\<close>).
\<close>

record NamespaceConfig =
  BaseName :: string
  ConfName :: string
  ConfEngType :: string
  ConfPartitionNum :: int
  Replicator :: int
  ConfGroupID :: uint64
  SeedNodes :: "ReplicaInfo list"

text \<open>
  The loop of \<^verbatim>\<open>prepareNamespaceConf\<close> over \<^verbatim>\<open>GetISR()\<close>, appending to the seed nodes
  built so far.
\<close>

fun seedNodesLoop ::
  "Cluster \<Rightarrow> NodeInfo \<Rightarrow> DataNodeRegister \<Rightarrow> PartitionMetaInfo \<Rightarrow> uint64 \<Rightarrow> string list
    \<Rightarrow> ReplicaInfo list \<Rightarrow> ReplicaInfo list" where
  "seedNodesLoop cl me r nsInfo raftID [] seeds = seeds"
| "seedNodesLoop cl me r nsInfo raftID (nid # rest) seeds =
     (if nid = node_ID me then
        seedNodesLoop cl me r nsInfo raftID rest
          (seeds @ [\<lparr>SeedNodeID = RegID me, ReplicaID = raftID,
                      RaftAddr = RaftTransportAddr me\<rparr>])
      else (case map_of (RaftIDs nsInfo) nid of
          None \<Rightarrow> seedNodesLoop cl me r nsInfo raftID rest seeds
        | Some rid \<Rightarrow>
            (case getRaftAddrForNode r nid of
               Inl err \<Rightarrow> seedNodesLoop cl me r nsInfo raftID rest seeds
             | Inr addr \<Rightarrow>
                 seedNodesLoop cl me r nsInfo raftID rest
                   (seeds @ [\<lparr>SeedNodeID = ExtractRegIDFromGenID cl nid, ReplicaID = rid,
                               RaftAddr = addr\<rparr>]))))"

text \<open>
  \<^verbatim>\<open>prepareNamespaceConf\<close>. It runs under \<^verbatim>\<open>loadLocalNamespaceData\<close>, which has
  read the registry \<open>r\<close> before.
\<close>

definition prepareNamespaceConf ::
  "Cluster \<Rightarrow> NodeInfo \<Rightarrow> DataNodeRegister \<Rightarrow> PartitionMetaInfo \<Rightarrow> CoordErr + NamespaceConfig" where
  "prepareNamespaceConf cl me r nsInfo =
     (case map_of (RaftIDs nsInfo) (node_ID me) of
        None \<Rightarrow> Inl ErrNamespaceConfInvalid
      | Some raftID \<Rightarrow>
          (let nsConf = \<lparr>BaseName = Name nsInfo, ConfName = GetDesp nsInfo,
                         ConfEngType = EngType nsInfo, ConfPartitionNum = PartitionNum nsInfo,
                         Replicator = Replica nsInfo,
                         ConfGroupID = word_of_int (MinGID nsInfo) + word_of_int (Partition nsInfo),
                         SeedNodes = seedNodesLoop cl me r nsInfo raftID (GetISR nsInfo) []\<rparr>
           in if length (SeedNodes nsConf) = 0 then Inl ErrNamespaceConfInvalid
              else Inr nsConf))"

text \<open>
  The seed of one ISR entry in the spec's words, to compare the loop with: self gives
  its own register id, replica id and raft address; another node gives the replica id
  that \<^verbatim>\<open>RaftIDs\<close> has for it and the raft address that the registry resolves; an entry
  for which either is missing gives no seed.
\<close>

definition spec_seed ::
  "Cluster \<Rightarrow> NodeInfo \<Rightarrow> DataNodeRegister \<Rightarrow> PartitionMetaInfo \<Rightarrow> string \<Rightarrow> ReplicaInfo option" where
  "spec_seed cl me r nsInfo nid =
     (if nid = node_ID me
      then Some \<lparr>SeedNodeID = RegID me, ReplicaID = lookup0 (RaftIDs nsInfo) (node_ID me),
                 RaftAddr = RaftTransportAddr me\<rparr>
      else (case (map_of (RaftIDs nsInfo) nid, GetNodeInfo r nid) of
          (Some rid, Inr node) \<Rightarrow>
            Some \<lparr>SeedNodeID = ExtractRegIDFromGenID cl nid, ReplicaID = rid,
                  RaftAddr = RaftTransportAddr node\<rparr>
        | _ \<Rightarrow> None))"

section \<open>Join protocol\<close>

text \<open>
  \<^verbatim>\<open>requestJoinNamespaceGroup\<close>: the calls it makes. Its caller drops the error it
  returns.
\<close>

definition requestJoinNamespaceGroup ::
  "Cluster \<Rightarrow> NodeInfo \<Rightarrow> uint64 \<Rightarrow> PartitionMetaInfo \<Rightarrow> NamespaceNode \<Rightarrow> string \<Rightarrow> Event list" where
  "requestJoinNamespaceGroup cl me raftID nsInfo localNamespace remoteNode =
     (let m = FillMyMemberInfo localNamespace
                \<lparr>ID = raftID, NodeID = RegID me,
                 GroupID = word_of_int (MinGID nsInfo) + word_of_int (Partition nsInfo),
                 GroupName = GetDesp nsInfo, RaftURLs = []\<rparr>
      in if remoteNode = node_ID me then []
         else (case ExtractNodeInfoFromID cl remoteNode of (nip, _, _, httpPort) \<Rightarrow>
           [PostAddNode nip httpPort m]))"

text \<open>
  What one round of the retry loop of \<^verbatim>\<open>ensureJoinNamespaceGroup\<close> observes: the
  members the local replica reports, whether \<^verbatim>\<open>IsRaftSynced()\<close> holds, and whether
  \<^verbatim>\<open>stopChan\<close> fires before the half second of the round's \<^verbatim>\<open>select\<close> has passed.
\<close>

record JoinRound =
  RoundMembers :: "MemberInfo list"
  RoundSynced :: bool
  RoundStopped :: bool

text \<open>
  The loop over \<^verbatim>\<open>mems\<close> at the head of a round: it fills \<^verbatim>\<open>memsMap\<close> and sets
  \<^verbatim>\<open>alreadyJoined\<close>; \<open>n\<close> is \<^verbatim>\<open>len(mems)\<close>.
\<close>

fun scanMembers ::
  "NodeInfo \<Rightarrow> PartitionMetaInfo \<Rightarrow> uint64 \<Rightarrow> nat \<Rightarrow> MemberInfo list
    \<Rightarrow> (uint64 \<Rightarrow> MemberInfo option) \<times> bool \<Rightarrow> (uint64 \<Rightarrow> MemberInfo option) \<times> bool" where
  "scanMembers me nsInfo raftID n [] acc = acc"
| "scanMembers me nsInfo raftID n (m # mems) (memsMap, alreadyJoined) =
     scanMembers me nsInfo raftID n mems
       (memsMap(NodeID m \<mapsto> m),
        (if NodeID m = RegID me \<and> GroupName m = GetDesp nsInfo \<and> ID m = raftID
         then (if n > length (GetISR nsInfo) div 2 then True else alreadyJoined)
         else alreadyJoined))"

text \<open>
  The loop \<^verbatim>\<open>for cnt <= len(isr)\<close> that picks the remote: the result is the remote and
  the new \<^verbatim>\<open>retry\<close>. \<^verbatim>\<open>retry%len(isr)\<close> panics when the list is empty.
\<close>

function pickRemote ::
  "Cluster \<Rightarrow> NodeInfo \<Rightarrow> (uint64 \<Rightarrow> MemberInfo option) \<Rightarrow> string list \<Rightarrow> nat \<Rightarrow> nat \<Rightarrow> string
    \<Rightarrow> Panic + string \<times> nat" where
  "pickRemote cl me memsMap isr retry cnt remote =
     (if cnt \<le> length isr then
        (if length isr = 0 then Inl DivideByZero
         else (let remote' = isr ! (retry mod length isr) in
           if remote' = node_ID me
           then pickRemote cl me memsMap isr (retry + 1) (cnt + 1) remote'
           else if memsMap (ExtractRegIDFromGenID cl remote') = None
           then Inr (remote', retry + 1)
           else pickRemote cl me memsMap isr (retry + 1) (cnt + 1) remote'))
      else Inr (remote, retry))"
  by pat_completeness auto
termination
  by (relation "measure (\<lambda>(cl, me, memsMap, isr, retry, cnt, remote). Suc (length isr) - cnt)") auto

declare pickRemote.simps [simp del]

text \<open>
  The test of the picking loop on one entry, on the member list instead of \<^verbatim>\<open>memsMap\<close>:
  the loop goes on past self and past a node whose register id is the \<^verbatim>\<open>NodeID\<close> of a
  member.
\<close>

definition skipsEntry :: "Cluster \<Rightarrow> NodeInfo \<Rightarrow> MemberInfo list \<Rightarrow> string \<Rightarrow> bool" where
  "skipsEntry cl me mems x =
     (x = node_ID me \<or> ExtractRegIDFromGenID cl x \<in> NodeID ` set mems)"

text \<open>
  How one round of the retry loop ends: with \<^verbatim>\<open>break\<close>, with a \<^verbatim>\<open>return\<close>, or at the
  end of its body with \<^verbatim>\<open>joinErr\<close> and \<^verbatim>\<open>retry\<close> as they are then.
\<close>

datatype RoundExit = Break "CoordErr option" | Return CoordErr | Next "CoordErr option" nat

text \<open>The body of the retry loop of \<^verbatim>\<open>ensureJoinNamespaceGroup\<close> (lines 695 to 748).\<close>

definition joinRound ::
  "Cluster \<Rightarrow> NodeInfo \<Rightarrow> PartitionMetaInfo \<Rightarrow> NamespaceNode \<Rightarrow> uint64 \<Rightarrow> JoinRound \<Rightarrow> nat
    \<Rightarrow> Panic + RoundExit \<times> Event list" where
  "joinRound cl me nsInfo localNamespace raftID rd retry =
     (let mems = RoundMembers rd;
          scanned = scanMembers me nsInfo raftID (length mems) mems (Map.empty, False);
          memsMap = fst scanned;
          alreadyJoined = snd scanned
      in if alreadyJoined then
           (if RoundSynced rd then Inr (Break None, [])
            else if RoundStopped rd then Inr (Return ErrNamespaceExiting, [])
            else Inr (Next (Some ErrNamespaceWaitingSync) retry, []))
         else
           (let isr = (if length (GetISR nsInfo) = 0 then RaftNodes nsInfo else GetISR nsInfo) in
            case pickRemote cl me memsMap isr retry 0 [] of
              Inl p \<Rightarrow> Inl p
            | Inr (remote, retry') \<Rightarrow>
                (let evs = requestJoinNamespaceGroup cl me raftID nsInfo localNamespace remote in
                 if RoundStopped rd then Inr (Return ErrNamespaceExiting, evs)
                 else Inr (Next (Some ErrNamespaceWaitingSync) retry', evs))))"

text \<open>How the retry loop is left: by a \<^verbatim>\<open>return\<close> inside it, or past its end with \<^verbatim>\<open>joinErr\<close>.\<close>

datatype LoopExit = Returned CoordErr | Finished "CoordErr option"

text \<open>
  The retry loop. Each element of the list is a round that the 30 second budget still
  admits; when the list is used up, the loop condition has become false.
\<close>

fun joinLoop ::
  "Cluster \<Rightarrow> NodeInfo \<Rightarrow> PartitionMetaInfo \<Rightarrow> NamespaceNode \<Rightarrow> uint64 \<Rightarrow> JoinRound list
    \<Rightarrow> nat \<Rightarrow> CoordErr option \<Rightarrow> Panic + LoopExit \<times> Event list" where
  "joinLoop cl me nsInfo localNamespace raftID [] retry joinErr = Inr (Finished joinErr, [])"
| "joinLoop cl me nsInfo localNamespace raftID (rd # rounds) retry joinErr =
     (case joinRound cl me nsInfo localNamespace raftID rd retry of
        Inl p \<Rightarrow> Inl p
      | Inr (Break e, evs) \<Rightarrow> Inr (Finished e, evs)
      | Inr (Return e, evs) \<Rightarrow> Inr (Returned e, evs)
      | Inr (Next e retry', evs) \<Rightarrow>
          (case joinLoop cl me nsInfo localNamespace raftID rounds retry' e of
             Inl p \<Rightarrow> Inl p
           | Inr (ex, evs') \<Rightarrow> Inr (ex, evs @ evs')))"

text \<open>
  \<^verbatim>\<open>ensureJoinNamespaceGroup\<close>: the error it returns (\<open>None\<close> for nil), the coordinator
  after it (the deferred decrement of \<^verbatim>\<open>catchupRunning\<close> has run) and its calls.
\<close>

definition ensureJoinNamespaceGroup ::
  "Cluster \<Rightarrow> DataCoordinator \<Rightarrow> PartitionMetaInfo \<Rightarrow> NamespaceNode \<Rightarrow> JoinRound list
    \<Rightarrow> Panic + CoordErr option \<times> DataCoordinator \<times> Event list" where
  "ensureJoinNamespaceGroup cl c nsInfo localNamespace rounds =
     (let me = myNode c;
          removing = (case map_of (Removings nsInfo) (node_ID me) of
                        None \<Rightarrow> False
                      | Some rm \<Rightarrow> RemoveReplicaID rm = lookup0 (RaftIDs nsInfo) (node_ID me))
      in if removing then Inr (None, c, [])
         else
          (let myRunning = catchupRunning c + 1;
               c1 = c\<lparr>catchupRunning := myRunning\<rparr>;
               cEnd = c1\<lparr>catchupRunning := catchupRunning c1 - 1\<rparr>
           in if sint myRunning > MAX_RAFT_JOIN_RUNNING
              then Inr (Some ErrCatchupRunningBusy, cEnd, [TryCheckNamespaces])
              else
               (let pre = [SetDynamicInfo (FullName localNamespace),
                           SetDataFixState (FullName localNamespace) False] in
                case map_of (RaftIDs nsInfo) (node_ID me) of
                  None \<Rightarrow> Inr (Some ErrNamespaceConfInvalid, cEnd, pre)
                | Some raftID \<Rightarrow>
                    (case joinLoop cl me nsInfo localNamespace raftID rounds 0 None of
                       Inl p \<Rightarrow> Inl p
                     | Inr (Returned e, evs) \<Rightarrow> Inr (Some e, cEnd, pre @ evs)
                     | Inr (Finished joinErr, evs) \<Rightarrow>
                         if joinErr \<noteq> None
                         then Inr (joinErr, cEnd, pre @ evs @ [TryCheckNamespaces])
                         else Inr (joinErr, cEnd, pre @ evs)))))"

text \<open>
  Calls of \<^verbatim>\<open>ensureJoinNamespaceGroup\<close> that run at the same time, past the check of
  \<^verbatim>\<open>Removings\<close>. Each call is \<open>Idle\<close> before its \<^verbatim>\<open>atomic.AddInt32(&catchupRunning, 1)\<close>
  and after its deferred \<^verbatim>\<open>atomic.AddInt32(&catchupRunning, -1)\<close>; between them it is
  \<open>Busy\<close> when the value it read exceeds \<^verbatim>\<open>MAX_RAFT_JOIN_RUNNING\<close>, and \<open>Joining\<close>
  otherwise. The two atomic operations are the steps; a state is the counter and the
  phase of every call.
\<close>

datatype Phase = Idle | Joining | Busy

inductive joinStep :: "int32 \<times> Phase list \<Rightarrow> int32 \<times> Phase list \<Rightarrow> bool" where
  enter: "i < length ps \<Longrightarrow> ps ! i = Idle \<Longrightarrow>
     joinStep (n, ps)
       (n + 1, ps[i := (if sint (n + 1) > MAX_RAFT_JOIN_RUNNING then Busy else Joining)])"
| leave: "i < length ps \<Longrightarrow> ps ! i \<noteq> Idle \<Longrightarrow>
     joinStep (n, ps) (n - 1, ps[i := Idle])"

inductive joinReachable :: "nat \<Rightarrow> int32 \<times> Phase list \<Rightarrow> bool" where
  init: "joinReachable k (0, replicate k Idle)"
| step: "joinReachable k s \<Longrightarrow> joinStep s s' \<Longrightarrow> joinReachable k s'"

text \<open>
  The invariant of these states: the counter is the number of calls that are not
  \<open>Idle\<close>, and at most five calls are \<open>Joining\<close>.
\<close>

definition joinInv :: "nat \<Rightarrow> int32 \<times> Phase list \<Rightarrow> bool" where
  "joinInv k s =
     (length (snd s) = k \<and>
      fst s = of_nat (length (filter (\<lambda>p. p \<noteq> Idle) (snd s))) \<and>
      length (filter (\<lambda>p. p = Joining) (snd s)) \<le> 5)"

section \<open>Shutdown\<close>

text \<open>The loop of \<^verbatim>\<open>prepareLeavingCluster\<close> over \<^verbatim>\<open>GetISR()\<close>, left at the first other node.\<close>

fun transferToFirstOther ::
  "Cluster \<Rightarrow> NodeInfo \<Rightarrow> NamespaceMgr \<Rightarrow> PartitionMetaInfo \<Rightarrow> string list \<Rightarrow> Event list" where
  "transferToFirstOther cl me mgr nsInfo [] = []"
| "transferToFirstOther cl me mgr nsInfo (newLeader # rest) =
     (if newLeader = node_ID me then transferToFirstOther cl me mgr nsInfo rest
      else transferMyNamespaceLeader cl mgr nsInfo newLeader)"

definition leavePartition ::
  "Cluster \<Rightarrow> NodeInfo \<Rightarrow> NamespaceMgr \<Rightarrow> PartitionMetaInfo \<Rightarrow> Event list" where
  "leavePartition cl me mgr nsInfo =
     (if FindSlice (RaftNodes nsInfo) (node_ID me) = - 1 then []
      else (case GetNamespaceNode mgr (GetDesp nsInfo) of
          None \<Rightarrow> []
        | Some localNamespace \<Rightarrow>
            if getNamespaceRaftLeader mgr nsInfo \<noteq> RegID me then []
            else transferToFirstOther cl me mgr nsInfo (GetISR nsInfo)))"

text \<open>
  \<^verbatim>\<open>prepareLeavingCluster\<close>. Its first statement calls \<^verbatim>\<open>GetAllNamespaces\<close> on
  \<^verbatim>\<open>self.register\<close>: on the nil interface that is a nil dereference.
\<close>

definition prepareLeavingCluster ::
  "Cluster \<Rightarrow> DataCoordinator \<Rightarrow> Panic + DataCoordinator \<times> Event list" where
  "prepareLeavingCluster cl c =
     (case register c of
        None \<Rightarrow> Inl NilDereference
      | Some r \<Rightarrow>
          (let allNamespaces = fst (GetAllNamespaces r);
               evs = concat (map (\<lambda>(nsName, nsParts).
                        concat (map (\<lambda>(pid, nsInfo). leavePartition cl (myNode c) (localNSMgr c) nsInfo)
                                  nsParts))
                      allNamespaces)
           in Inr (c\<lparr>stopping := 1\<rparr>, evs @ [NSMgrStop, Unregister, RegisterStop])))"

text \<open>\<^verbatim>\<open>Stop\<close>; \<^verbatim>\<open>close\<close> of a closed channel panics, \<^verbatim>\<open>wg.Wait()\<close> makes no call.\<close>

definition Stop :: "Cluster \<Rightarrow> DataCoordinator \<Rightarrow> Panic + DataCoordinator \<times> Event list" where
  "Stop cl c =
     (if stopping c = 1 then Inr (c, [])
      else (case prepareLeavingCluster cl c of
          Inl p \<Rightarrow> Inl p
        | Inr (c', evs) \<Rightarrow>
            if stopChanClosed c' then Inl CloseOfClosedChannel
            else Inr (c'\<lparr>stopChanClosed := True\<rparr>, evs)))"

section \<open>Statistics\<close>

record ISRStat =
  HostName :: string
  StatNodeID :: string

record NamespaceCoordStat =
  StatName :: string
  StatPartition :: int
  ISRStats :: "ISRStat list"

text \<open>The loop \<^verbatim>\<open>for _, nid := range nsInfo.RaftNodes\<close> of \<^verbatim>\<open>Stats\<close>.\<close>

fun appendISRStats :: "ISRStat list \<Rightarrow> string list \<Rightarrow> ISRStat list" where
  "appendISRStats stats [] = stats"
| "appendISRStats stats (nid # rest) =
     appendISRStats (stats @ [\<lparr>HostName = [], StatNodeID = nid\<rparr>]) rest"

text \<open>
  The loop \<^verbatim>\<open>for i := 0; i < meta.PartitionNum; i++\<close> of \<^verbatim>\<open>Stats\<close>, with the rounds
  still to run; each round asks the registry for \<^verbatim>\<open>part\<close>.
\<close>

fun statsOfAll :: "DataNodeRegister \<Rightarrow> string \<Rightarrow> int \<Rightarrow> nat \<Rightarrow> NamespaceCoordStat list" where
  "statsOfAll r namespace part 0 = []"
| "statsOfAll r namespace part (Suc k) =
     (case GetNamespacePartInfo r namespace part of
        Inl err \<Rightarrow> statsOfAll r namespace part k
      | Inr nsInfo \<Rightarrow>
          \<lparr>StatName = namespace, StatPartition = Partition nsInfo,
           ISRStats = appendISRStats [] (RaftNodes nsInfo)\<rparr>
          # statsOfAll r namespace part k)"

text \<open>\<^verbatim>\<open>Stats\<close>: the list \<^verbatim>\<open>NsCoordStats\<close> of the result.\<close>

definition Stats :: "DataCoordinator \<Rightarrow> string \<Rightarrow> int \<Rightarrow> Panic + NamespaceCoordStat list" where
  "Stats c namespace part =
     (if length namespace > 0 then
        (case register c of
           None \<Rightarrow> Inl NilDereference
         | Some r \<Rightarrow>
             (case GetNamespaceMetaInfo r namespace of
                Inl err \<Rightarrow> Inr []
              | Inr meta \<Rightarrow>
                  if part \<ge> 0 then
                    (case GetNamespacePartInfo r namespace part of
                       Inl err \<Rightarrow> Inr []
                     | Inr nsInfo \<Rightarrow>
                         Inr [\<lparr>StatName = namespace, StatPartition = part,
                               ISRStats = appendISRStats [] (RaftNodes nsInfo)\<rparr>])
                  else Inr (statsOfAll r namespace part (nat (MetaPartitionNum meta)))))
      else Inr [])"

section \<open>Scenario data\<close>

text \<open>
  The data of the spec's boundary scenarios: the nodes \<open>A\<close>, \<open>B\<close> and \<open>C\<close> with the
  register ids 1, 2 and 3, and partition 0 of the namespace \<open>ns\<close> with three replicas.
  The theorems below are applied to them.
\<close>

definition regIDOf :: "string \<Rightarrow> uint64" where
  "regIDOf nid =
     (if nid = ''A'' then 1 else if nid = ''B'' then 2 else if nid = ''C'' then 3 else 0)"

definition exCluster :: "(string \<Rightarrow> string + MemberInfo list) \<Rightarrow> Cluster" where
  "exCluster answers =
     \<lparr>ExtractRegIDFromGenID = regIDOf,
      ExtractNodeInfoFromID = (\<lambda>nid. (nid, [], [], ''80'')),
      GetNamespaceAndPartition = (\<lambda>name. (''ns'', 0)),
      APIGetMembers = (\<lambda>nip port desp. answers nip)\<rparr>"

definition exNode :: "string \<Rightarrow> NodeInfo" where
  "exNode nid =
     \<lparr>node_ID = nid, RegID = regIDOf nid, NodeIP = nid, HttpPort = ''80'',
      RaftTransportAddr = ''raft-'' @ nid, DataRoot = [], RsyncModule = []\<rparr>"

definition exMeta :: PartitionMetaInfo where
  "exMeta =
     \<lparr>Name = ''ns'', Partition = 0, Replica = 3, PartitionNum = 1, MinGID = 100,
      EngType = [], MagicCode = 0,
      RaftNodes = [''A'', ''B'', ''C''], ISR = [''A'', ''B'', ''C''],
      RaftIDs = [(''A'', 1), (''B'', 2), (''C'', 3)], Removings = []\<rparr>"

definition exMember :: "string \<Rightarrow> uint64 \<Rightarrow> MemberInfo" where
  "exMember nid rid =
     \<lparr>ID = rid, NodeID = regIDOf nid, GroupID = 100, GroupName = ''ns-0'',
      RaftURLs = [''raft-'' @ nid]\<rparr>"

definition exRemoving :: "uint64 \<Rightarrow> RemovingInfo" where
  "exRemoving rid = \<lparr>RemoveTime = 0, RemoveReplicaID = rid\<rparr>"

definition exReplica :: "MemberInfo list \<Rightarrow> MemberInfo option \<Rightarrow> NamespaceNode" where
  "exReplica members lead =
     \<lparr>FullName = ''ns-0'', GetMembers = members, GetLeadMember = lead,
      GetLocalMemberInfo = exMember ''A'' 1, IsReady = True,
      FillMyMemberInfo = (\<lambda>m. m\<lparr>RaftURLs := [''raft-local'']\<rparr>),
      ProposeRemoveMemberErr = (\<lambda>m. None)\<rparr>"

definition exMgr :: "NamespaceNode \<Rightarrow> NamespaceMgr" where
  "exMgr replica =
     \<lparr>GetNamespaceNode = (\<lambda>name. if name = ''ns-0'' then Some replica else None),
      GetNamespaces = [(''ns-0'', replica)]\<rparr>"

definition exRegister :: "PartitionMetaInfo \<Rightarrow> DataNodeRegister" where
  "exRegister meta =
     \<lparr>GetNodeInfo = (\<lambda>nid. Inr (exNode nid)),
      GetNamespacePartInfo =
        (\<lambda>namespace pid. if namespace = ''ns'' \<and> pid = 0 then Inr meta else Inl ErrKeyNotFound),
      GetNamespaceMetaInfo =
        (\<lambda>namespace. if namespace = ''ns'' then Inr \<lparr>MetaPartitionNum = 1, MetaReplica = 3\<rparr>
                     else Inl ErrKeyNotFound),
      GetAllNamespaces = ([(''ns'', [(0, meta)])], None)\<rparr>"

section \<open>Theorems\<close>

subsection \<open>Auxiliary facts\<close>

lemma FindSlice_from_neg: "0 \<le> i \<Longrightarrow> (FindSlice_from i xs e = - 1) = (e \<notin> set xs)"
  by (induction xs arbitrary: i) auto

lemma FindSlice_mem: "(FindSlice xs e \<noteq> - 1) = (e \<in> set xs)"
  by (simp add: FindSlice_def FindSlice_from_neg)

lemma FindSlice_neg: "(FindSlice xs e = - 1) = (e \<notin> set xs)"
  by (simp add: FindSlice_def FindSlice_from_neg)

lemma Itoa_0: "Itoa 0 = ''0''"
  by code_simp

lemma GetDesp_ns0: "Name ns = ''ns'' \<Longrightarrow> Partition ns = 0 \<Longrightarrow> GetDesp ns = ''ns-0''"
  by (simp add: GetDesp_def Itoa_0)

lemma rspHasMe_iff:
  "rspHasMe regID raftID rsp = (\<exists>m\<in>set rsp. NodeID m = regID \<and> ID m = raftID)"
  by (induction rsp) auto

lemma isMeInRaftGroup_loop_fst:
  "fst (isMeInRaftGroup_loop cl me ns isr lastErr) =
     (\<exists>peer\<in>set isr. peer \<noteq> node_ID me \<and>
        (\<exists>rsp. peerMembers cl ns peer = Inr rsp \<and>
           (\<exists>m\<in>set rsp. NodeID m = RegID me \<and> ID m = lookup0 (RaftIDs ns) (node_ID me))))"
proof (induction isr arbitrary: lastErr)
  case Nil
  then show ?case by simp
next
  case (Cons peer isr)
  show ?case
  proof (cases "peer = node_ID me")
    case True
    then show ?thesis by (simp add: Cons.IH)
  next
    case False
    show ?thesis
    proof (cases "peerMembers cl ns peer")
      case (Inl err)
      then show ?thesis using False by (simp add: Cons.IH)
    next
      case (Inr rsp)
      then show ?thesis using False by (simp add: Cons.IH rspHasMe_iff) blast
    qed
  qed
qed

lemma markedRemoving_iff:
  "markedRemoving cl m rms =
     (\<exists>(nid, removing)\<in>set rms.
        ID m = RemoveReplicaID removing \<and> NodeID m = ExtractRegIDFromGenID cl nid)"
  by (induction rms) auto

subsection \<open>Placement predicates\<close>

text \<open>
  C1. The claim: when self is in \<^verbatim>\<open>Removings\<close> with the replica id that \<^verbatim>\<open>RaftIDs\<close> gives
  it, and \<^verbatim>\<open>isMeInRaftGroup\<close> returns false without an error, \<^verbatim>\<open>isNamespaceShouldStop\<close>
  returns true. The code returns false there: its last statement, after the log line
  "should stop namespace ... since not in any raft group anymore", is \<^verbatim>\<open>return false\<close>.
  The theorem states what the code does in exactly the case of the claim.
\<close>

theorem isNamespaceShouldStop_removed_returns_false:
  "map_of (Removings nsInfo) (node_ID me) = Some rm \<Longrightarrow>
   RemoveReplicaID rm = lookup0 (RaftIDs nsInfo) (node_ID me) \<Longrightarrow>
   isMeInRaftGroup cl me nsInfo = (False, None) \<Longrightarrow>
   isNamespaceShouldStop cl me nsInfo = False"
  by (simp add: isNamespaceShouldStop_def)

text \<open>
  The failing input: node \<open>C\<close> is removed with its replica id 3, and both peers answer
  with the members of \<open>A\<close> and \<open>B\<close> only.
\<close>

theorem isNamespaceShouldStop_removed_witness:
  "map_of (Removings (exMeta\<lparr>Removings := [(''C'', exRemoving 3)]\<rparr>)) (node_ID (exNode ''C''))
     = Some (exRemoving 3) \<and>
   RemoveReplicaID (exRemoving 3) = lookup0 (RaftIDs exMeta) (node_ID (exNode ''C'')) \<and>
   isMeInRaftGroup (exCluster (\<lambda>ip. Inr [exMember ''A'' 1, exMember ''B'' 2])) (exNode ''C'')
     (exMeta\<lparr>Removings := [(''C'', exRemoving 3)]\<rparr>) = (False, None) \<and>
   isNamespaceShouldStop (exCluster (\<lambda>ip. Inr [exMember ''A'' 1, exMember ''B'' 2])) (exNode ''C'')
     (exMeta\<lparr>Removings := [(''C'', exRemoving 3)]\<rparr>) = False"
proof -
  have h1: "map_of (Removings (exMeta\<lparr>Removings := [(''C'', exRemoving 3)]\<rparr>))
      (node_ID (exNode ''C'')) = Some (exRemoving 3)"
    by (simp add: exNode_def)
  have h2: "RemoveReplicaID (exRemoving 3)
      = lookup0 (RaftIDs (exMeta\<lparr>Removings := [(''C'', exRemoving 3)]\<rparr>)) (node_ID (exNode ''C''))"
    by (simp add: exNode_def exMeta_def exRemoving_def lookup0_def)
  have h3: "isMeInRaftGroup (exCluster (\<lambda>ip. Inr [exMember ''A'' 1, exMember ''B'' 2]))
      (exNode ''C'') (exMeta\<lparr>Removings := [(''C'', exRemoving 3)]\<rparr>) = (False, None)"
    by (simp add: isMeInRaftGroup_def GetISR_def peerMembers_def exNode_def exMeta_def
          exCluster_def exMember_def regIDOf_def lookup0_def)
  from isNamespaceShouldStop_removed_returns_false [OF h1 h2 h3] h1 h2 h3
  show ?thesis by simp
qed

text \<open>
  C2. \<^verbatim>\<open>isNamespaceShouldStart\<close> is false when self is not in \<^verbatim>\<open>RaftNodes\<close>; true when
  self is in \<^verbatim>\<open>RaftNodes\<close> and not in \<^verbatim>\<open>Removings\<close>; true when self is in
  \<^verbatim>\<open>Removings\<close> with a replica id other than \<^verbatim>\<open>RaftIDs[self]\<close>; and otherwise the result
  of \<^verbatim>\<open>isMeInRaftGroup\<close>, which is true iff some peer of the ISR other than self answers
  the request with a member whose \<^verbatim>\<open>NodeID\<close> is self's register id and whose \<^verbatim>\<open>ID\<close> is
  \<^verbatim>\<open>RaftIDs[self]\<close>.
\<close>

theorem isNamespaceShouldStart_cases:
  "(node_ID me \<notin> set (RaftNodes nsInfo) \<longrightarrow> \<not> isNamespaceShouldStart cl me nsInfo) \<and>
   (node_ID me \<in> set (RaftNodes nsInfo) \<and> map_of (Removings nsInfo) (node_ID me) = None
      \<longrightarrow> isNamespaceShouldStart cl me nsInfo) \<and>
   (\<forall>rm. node_ID me \<in> set (RaftNodes nsInfo) \<and>
         map_of (Removings nsInfo) (node_ID me) = Some rm \<and>
         RemoveReplicaID rm \<noteq> lookup0 (RaftIDs nsInfo) (node_ID me)
      \<longrightarrow> isNamespaceShouldStart cl me nsInfo) \<and>
   (\<forall>rm. node_ID me \<in> set (RaftNodes nsInfo) \<and>
         map_of (Removings nsInfo) (node_ID me) = Some rm \<and>
         RemoveReplicaID rm = lookup0 (RaftIDs nsInfo) (node_ID me)
      \<longrightarrow> isNamespaceShouldStart cl me nsInfo = fst (isMeInRaftGroup cl me nsInfo)) \<and>
   fst (isMeInRaftGroup cl me nsInfo) =
     (\<exists>peer\<in>set (GetISR nsInfo). peer \<noteq> node_ID me \<and>
        (\<exists>rsp. peerMembers cl nsInfo peer = Inr rsp \<and>
           (\<exists>m\<in>set rsp. NodeID m = RegID me \<and> ID m = lookup0 (RaftIDs nsInfo) (node_ID me))))"
proof -
  have inGroup: "fst (isMeInRaftGroup cl me nsInfo) =
     (\<exists>peer\<in>set (GetISR nsInfo). peer \<noteq> node_ID me \<and>
        (\<exists>rsp. peerMembers cl nsInfo peer = Inr rsp \<and>
           (\<exists>m\<in>set rsp. NodeID m = RegID me \<and> ID m = lookup0 (RaftIDs nsInfo) (node_ID me))))"
    by (simp only: isMeInRaftGroup_def isMeInRaftGroup_loop_fst)
  have notListed: "node_ID me \<notin> set (RaftNodes nsInfo) \<longrightarrow> \<not> isNamespaceShouldStart cl me nsInfo"
    by (simp add: isNamespaceShouldStart_def FindSlice_mem)
  have notRemoving: "node_ID me \<in> set (RaftNodes nsInfo) \<and>
      map_of (Removings nsInfo) (node_ID me) = None \<longrightarrow> isNamespaceShouldStart cl me nsInfo"
    by (simp add: isNamespaceShouldStart_def FindSlice_mem)
  have stale: "\<forall>rm. node_ID me \<in> set (RaftNodes nsInfo) \<and>
         map_of (Removings nsInfo) (node_ID me) = Some rm \<and>
         RemoveReplicaID rm \<noteq> lookup0 (RaftIDs nsInfo) (node_ID me)
      \<longrightarrow> isNamespaceShouldStart cl me nsInfo"
    by (simp add: isNamespaceShouldStart_def FindSlice_mem)
  have removing: "\<forall>rm. node_ID me \<in> set (RaftNodes nsInfo) \<and>
         map_of (Removings nsInfo) (node_ID me) = Some rm \<and>
         RemoveReplicaID rm = lookup0 (RaftIDs nsInfo) (node_ID me)
      \<longrightarrow> isNamespaceShouldStart cl me nsInfo = fst (isMeInRaftGroup cl me nsInfo)"
    by (simp add: isNamespaceShouldStart_def FindSlice_mem)
  from notListed notRemoving stale removing inGroup show ?thesis by (intro conjI)
qed

text \<open>
  The five cases on the scenario: a node \<open>D\<close> outside \<^verbatim>\<open>RaftNodes\<close>; \<open>C\<close> with no removal;
  \<open>C\<close> with a stale removal of replica 9; \<open>C\<close> removed as replica 3 while peer \<open>B\<close> still
  lists it (peer \<open>A\<close> does not answer); and \<open>C\<close> removed while no peer lists it.
\<close>

theorem isNamespaceShouldStart_cases_witness:
  "\<not> isNamespaceShouldStart (exCluster (\<lambda>ip. Inr [])) (exNode ''D'') exMeta \<and>
   isNamespaceShouldStart (exCluster (\<lambda>ip. Inr [])) (exNode ''C'') exMeta \<and>
   isNamespaceShouldStart (exCluster (\<lambda>ip. Inr [])) (exNode ''C'')
     (exMeta\<lparr>Removings := [(''C'', exRemoving 9)]\<rparr>) \<and>
   isNamespaceShouldStart
     (exCluster (\<lambda>ip. if ip = ''B'' then Inr [exMember ''C'' 3] else Inl ''timeout''))
     (exNode ''C'') (exMeta\<lparr>Removings := [(''C'', exRemoving 3)]\<rparr>) \<and>
   \<not> isNamespaceShouldStart (exCluster (\<lambda>ip. Inr [exMember ''A'' 1, exMember ''B'' 2]))
     (exNode ''C'') (exMeta\<lparr>Removings := [(''C'', exRemoving 3)]\<rparr>)"
  using isNamespaceShouldStart_cases [of "exNode ''D''" exMeta "exCluster (\<lambda>ip. Inr [])"]
    isNamespaceShouldStart_cases [of "exNode ''C''" exMeta "exCluster (\<lambda>ip. Inr [])"]
    isNamespaceShouldStart_cases [of "exNode ''C''"
      "exMeta\<lparr>Removings := [(''C'', exRemoving 9)]\<rparr>" "exCluster (\<lambda>ip. Inr [])"]
    isNamespaceShouldStart_cases [of "exNode ''C''"
      "exMeta\<lparr>Removings := [(''C'', exRemoving 3)]\<rparr>"
      "exCluster (\<lambda>ip. if ip = ''B'' then Inr [exMember ''C'' 3] else Inl ''timeout'')"]
    isNamespaceShouldStart_cases [of "exNode ''C''"
      "exMeta\<lparr>Removings := [(''C'', exRemoving 3)]\<rparr>"
      "exCluster (\<lambda>ip. Inr [exMember ''A'' 1, exMember ''B'' 2])"]
  by (simp add: exNode_def exMeta_def exCluster_def exRemoving_def exMember_def regIDOf_def
        lookup0_def GetISR_def peerMembers_def)

subsection \<open>Membership reconciler\<close>

text \<open>
  C10. When some entry \<open>(nid, removing)\<close> of \<^verbatim>\<open>Removings\<close> has the member's \<^verbatim>\<open>ID\<close> as its
  \<^verbatim>\<open>RemoveReplicaID\<close> and the member's \<^verbatim>\<open>NodeID\<close> as the register id of \<open>nid\<close>,
  \<^verbatim>\<open>addNamespaceRaftMember\<close> returns without a call of \<^verbatim>\<open>ProposeAddMember\<close> (it makes no
  call at all), whatever the members of the group are.
\<close>

theorem addNamespaceRaftMember_skips_removing:
  "(nid, removing) \<in> set (Removings nsInfo) \<Longrightarrow>
   ID m = RemoveReplicaID removing \<Longrightarrow>
   NodeID m = ExtractRegIDFromGenID cl nid \<Longrightarrow>
   addNamespaceRaftMember cl mgr nsInfo m = []"
  by (auto simp: addNamespaceRaftMember_def markedRemoving_iff)

text \<open>
  Node \<open>C\<close> is marked as removing with replica id 3 and is not among the members of the
  local replica, which exists: no addition is proposed for it.
\<close>

theorem addNamespaceRaftMember_skips_removing_witness:
  "(''C'', exRemoving 3) \<in> set (Removings (exMeta\<lparr>Removings := [(''C'', exRemoving 3)]\<rparr>)) \<and>
   ID (exMember ''C'' 3) = RemoveReplicaID (exRemoving 3) \<and>
   NodeID (exMember ''C'' 3) = ExtractRegIDFromGenID (exCluster (\<lambda>ip. Inr [])) ''C'' \<and>
   GetNamespaceNode (exMgr (exReplica [exMember ''A'' 1, exMember ''B'' 2] None))
     (GetDesp (exMeta\<lparr>Removings := [(''C'', exRemoving 3)]\<rparr>)) \<noteq> None \<and>
   addNamespaceRaftMember (exCluster (\<lambda>ip. Inr []))
     (exMgr (exReplica [exMember ''A'' 1, exMember ''B'' 2] None))
     (exMeta\<lparr>Removings := [(''C'', exRemoving 3)]\<rparr>) (exMember ''C'' 3) = []"
proof -
  have h1: "(''C'', exRemoving 3) \<in> set (Removings (exMeta\<lparr>Removings := [(''C'', exRemoving 3)]\<rparr>))"
    by simp
  have h2: "ID (exMember ''C'' 3) = RemoveReplicaID (exRemoving 3)"
    by (simp add: exMember_def exRemoving_def)
  have h3: "NodeID (exMember ''C'' 3) = ExtractRegIDFromGenID (exCluster (\<lambda>ip. Inr [])) ''C''"
    by (simp add: exMember_def exCluster_def)
  have h4: "GetNamespaceNode (exMgr (exReplica [exMember ''A'' 1, exMember ''B'' 2] None))
     (GetDesp (exMeta\<lparr>Removings := [(''C'', exRemoving 3)]\<rparr>)) \<noteq> None"
    by (simp add: exMgr_def GetDesp_ns0 exMeta_def)
  from addNamespaceRaftMember_skips_removing [OF h1 h2 h3] h1 h2 h3 h4
  show ?thesis by simp
qed

subsection \<open>Facts about the member sync\<close>

lemma addMissingMembers_fst_Cons:
  "fst (addMissingMembers cl r mgr meta members ((nid, rid) # rest) anyJoined) =
     (if memberWithID members rid then fst (addMissingMembers cl r mgr meta members rest anyJoined)
      else fst (addMissingMembers cl r mgr meta members rest True))"
  by (simp add: Let_def)

lemma addMissingMembers_snd_Cons:
  "snd (addMissingMembers cl r mgr meta members ((nid, rid) # rest) anyJoined) =
     (if memberWithID members rid then snd (addMissingMembers cl r mgr meta members rest anyJoined)
      else (case getRaftAddrForNode r nid of
              Inl err \<Rightarrow> []
            | Inr raddr \<Rightarrow>
                addNamespaceRaftMember cl mgr meta
                  \<lparr>ID = rid, NodeID = ExtractRegIDFromGenID cl nid,
                   GroupID = word_of_int (MinGID meta) + word_of_int (Partition meta),
                   GroupName = GetDesp meta, RaftURLs = [raddr]\<rparr>)
           @ snd (addMissingMembers cl r mgr meta members rest True))"
  by (cases "getRaftAddrForNode r nid") (simp_all add: Let_def)

lemma addMissingMembers_mono:
  "anyJoined \<Longrightarrow> fst (addMissingMembers cl r mgr meta members ids anyJoined)"
proof (induction ids)
  case Nil
  then show ?case by simp
next
  case (Cons e ids)
  obtain nid rid where e: "e = (nid, rid)" by (cases e)
  show ?case unfolding e addMissingMembers_fst_Cons using Cons by simp
qed

lemma addNamespaceRaftMember_events:
  "ev \<in> set (addNamespaceRaftMember cl mgr meta m) \<Longrightarrow> \<exists>name. ev = ProposeAddMember name m"
  by (cases "GetNamespaceNode mgr (GetDesp meta)")
     (simp_all add: addNamespaceRaftMember_def split: if_splits)

lemma addMissingMembers_events:
  "ev \<in> set (snd (addMissingMembers cl r mgr meta members ids anyJoined)) \<Longrightarrow>
   (\<exists>name m. ev = ProposeAddMember name m) \<and>
   fst (addMissingMembers cl r mgr meta members ids anyJoined)"
proof (induction ids arbitrary: anyJoined)
  case Nil
  then show ?case by simp
next
  case (Cons e ids)
  obtain nid rid where e: "e = (nid, rid)" by (cases e)
  show ?case
  proof (cases "memberWithID members rid")
    case True
    with Cons.prems have "ev \<in> set (snd (addMissingMembers cl r mgr meta members ids anyJoined))"
      by (simp only: e addMissingMembers_snd_Cons if_True)
    from Cons.IH [OF this] True show ?thesis
      by (simp only: e addMissingMembers_fst_Cons if_True) 
  next
    case False
    have f: "fst (addMissingMembers cl r mgr meta members (e # ids) anyJoined)"
      using False addMissingMembers_mono [of True] by (simp only: e addMissingMembers_fst_Cons if_False)
    from Cons.prems False have
      "ev \<in> set (case getRaftAddrForNode r nid of
              Inl err \<Rightarrow> []
            | Inr raddr \<Rightarrow>
                addNamespaceRaftMember cl mgr meta
                  \<lparr>ID = rid, NodeID = ExtractRegIDFromGenID cl nid,
                   GroupID = word_of_int (MinGID meta) + word_of_int (Partition meta),
                   GroupName = GetDesp meta, RaftURLs = [raddr]\<rparr>)
       \<or> ev \<in> set (snd (addMissingMembers cl r mgr meta members ids True))"
      by (simp only: e addMissingMembers_snd_Cons if_False set_append Un_iff)
    then have "\<exists>name m. ev = ProposeAddMember name m"
    proof
      assume a: "ev \<in> set (case getRaftAddrForNode r nid of
              Inl err \<Rightarrow> []
            | Inr raddr \<Rightarrow>
                addNamespaceRaftMember cl mgr meta
                  \<lparr>ID = rid, NodeID = ExtractRegIDFromGenID cl nid,
                   GroupID = word_of_int (MinGID meta) + word_of_int (Partition meta),
                   GroupName = GetDesp meta, RaftURLs = [raddr]\<rparr>)"
      show ?thesis
      proof (cases "getRaftAddrForNode r nid")
        case (Inl err)
        with a show ?thesis by simp
      next
        case (Inr raddr)
        with a show ?thesis using addNamespaceRaftMember_events by (simp only: sum.case) blast
      qed
    next
      assume "ev \<in> set (snd (addMissingMembers cl r mgr meta members ids True))"
      from Cons.IH [OF this] show ?thesis by blast
    qed
    with f show ?thesis by blast
  qed
qed

lemma removeNamespaceRaftMember_events:
  "ev \<in> set (removeNamespaceRaftMember mgr meta m) \<Longrightarrow> \<exists>name. ev = ProposeRemoveMember name m"
  by (cases "GetNamespaceNode mgr (GetDesp meta)") (simp_all add: removeNamespaceRaftMember_def)

lemma removeMarked_events:
  "ev \<in> set (removeMarked cl mgr meta m rms) \<Longrightarrow> \<exists>name. ev = ProposeRemoveMember name m"
proof (induction rms)
  case Nil
  then show ?case by simp
next
  case (Cons e rms)
  obtain nid removing where e: "e = (nid, removing)" by (cases e)
  from Cons.prems e have "ev \<in> set (removeNamespaceRaftMember mgr meta m) \<or> ev \<in> set (removeMarked cl mgr meta m rms)"
    by (auto split: if_splits)
  then show ?case using Cons.IH removeNamespaceRaftMember_events by blast
qed

lemma removeExtraMembers_events:
  "ev \<in> set (removeExtraMembers cl mgr meta members) \<Longrightarrow>
   \<exists>name m. m \<in> set members \<and> ev = ProposeRemoveMember name m"
proof (induction members)
  case Nil
  then show ?case by simp
next
  case (Cons m members)
  from Cons.prems have "ev \<in> set (removeNamespaceRaftMember mgr meta m)
      \<or> ev \<in> set (removeMarked cl mgr meta m (Removings meta))
      \<or> ev \<in> set (removeExtraMembers cl mgr meta members)"
    by (auto split: if_splits)
  then show ?case
    using Cons.IH removeNamespaceRaftMember_events removeMarked_events
    by (metis list.set_intros(1) list.set_intros(2))
qed

lemma memberWithID_iff: "memberWithID members rid = (\<exists>m\<in>set members. ID m = rid)"
  by (induction members) auto

lemma addMissingMembers_fst:
  "fst (addMissingMembers cl r mgr meta members ids anyJoined) =
     (anyJoined \<or> (\<exists>(nid, rid)\<in>set ids. \<forall>m\<in>set members. ID m \<noteq> rid))"
proof (induction ids arbitrary: anyJoined)
  case Nil
  then show ?case by simp
next
  case (Cons e ids)
  obtain nid rid where e: "e = (nid, rid)" by (cases e)
  show ?case unfolding e addMissingMembers_fst_Cons
    by (simp add: Cons.IH memberWithID_iff) blast
qed

lemma syncMembers_unfold:
  "syncMembers cl r mgr meta enough =
     (if fst (addMissingMembers cl r mgr meta (getNamespaceRaftMembers mgr meta) (RaftIDs meta) False)
         \<or> int (length (getNamespaceRaftMembers mgr meta)) \<le> Replica meta \<or> \<not> enough
      then snd (addMissingMembers cl r mgr meta (getNamespaceRaftMembers mgr meta) (RaftIDs meta) False)
           @ [TryCheckNamespaces]
      else snd (addMissingMembers cl r mgr meta (getNamespaceRaftMembers mgr meta) (RaftIDs meta) False)
           @ removeExtraMembers cl mgr meta (getNamespaceRaftMembers mgr meta))"
  by (simp only: syncMembers_def Let_def)


lemma isNamespaceShouldStop_False: "isNamespaceShouldStop cl me nsInfo = False"
  by (auto simp add: isNamespaceShouldStop_def split: option.splits prod.splits)

lemma checkNamespace_leader:
  assumes "GetNamespaceAndPartition cl name = (namespace, pid)" and "namespace \<noteq> []"
    and "GetNamespacePartInfo r namespace pid = Inr meta"
    and "getNamespaceRaftLeader mgr meta = RegID me" and "RegID me \<noteq> 0"
    and "node_ID me \<in> set (GetISR meta)"
  shows "checkNamespace cl me r mgr name localNamespace =
     (if Replica meta \<le> int (length (GetISR meta)) \<and> GetISR meta ! 0 \<noteq> node_ID me
      then transferMyNamespaceLeader cl mgr meta (GetISR meta ! 0)
      else syncMembers cl r mgr meta (Replica meta \<le> int (length (GetISR meta))))"
proof -
  from assms(6) have ne: "length (GetISR meta) \<noteq> 0" by auto
  from assms(6) have fs: "FindSlice (GetISR meta) (node_ID me) \<noteq> - 1"
    by (simp add: FindSlice_mem)
  show ?thesis
    unfolding checkNamespace_def
    using assms(1-5) ne fs by (simp add: isNamespaceShouldStop_False Let_def)
qed

lemma syncMembers_no_transfer:
  "TransferMyLeader n a b \<notin> set (syncMembers cl r mgr meta enough)"
proof
  assume t: "TransferMyLeader n a b \<in> set (syncMembers cl r mgr meta enough)"
  let ?members = "getNamespaceRaftMembers mgr meta"
  let ?added = "addMissingMembers cl r mgr meta ?members (RaftIDs meta) False"
  from t have "TransferMyLeader n a b \<in> set (snd ?added)
      \<or> TransferMyLeader n a b \<in> set (removeExtraMembers cl mgr meta ?members)"
    unfolding syncMembers_unfold by (simp split: if_splits)
  then show False
    using addMissingMembers_events [of "TransferMyLeader n a b"]
      removeExtraMembers_events [of "TransferMyLeader n a b"] by blast
qed


lemma ex_sync_remove:
  "syncMembers (exCluster (\<lambda>ip. Inr [])) (exRegister exMeta)
     (exMgr (exReplica [exMember ''A'' 1, exMember ''B'' 2, exMember ''C'' 3, exMember ''X'' 9]
               (Some (exMember ''A'' 1))))
     exMeta (Replica exMeta \<le> int (length (GetISR exMeta)))
   = [ProposeRemoveMember ''ns-0'' (exMember ''X'' 9)]"
  by (simp add: syncMembers_def Let_def getNamespaceRaftMembers_def removeNamespaceRaftMember_def
        GetDesp_ns0 exMgr_def exReplica_def exMeta_def exMember_def GetISR_def regIDOf_def)

lemma ex_sync_add:
  "syncMembers (exCluster (\<lambda>ip. Inr [])) (exRegister exMeta)
     (exMgr (exReplica [exMember ''A'' 1, exMember ''B'' 2] (Some (exMember ''A'' 1))))
     exMeta (Replica exMeta \<le> int (length (GetISR exMeta)))
   = [ProposeAddMember ''ns-0'' (exMember ''C'' 3), TryCheckNamespaces]"
  by (simp add: syncMembers_def Let_def getNamespaceRaftMembers_def addNamespaceRaftMember_def
        getRaftAddrForNode_def exRegister_def exNode_def exCluster_def
        GetDesp_ns0 exMgr_def exReplica_def exMeta_def exMember_def GetISR_def regIDOf_def)


text \<open>
  C3. In the member sync of a pass, called as \<^verbatim>\<open>doWork\<close> calls it (\<^verbatim>\<open>isReplicasEnough\<close> is
  \<^verbatim>\<open>len(isrList) >= Replica\<close>): a \<^verbatim>\<open>ProposeRemoveMember\<close> is made only for a current
  member, and only when the pass makes no \<^verbatim>\<open>ProposeAddMember\<close>, the members are more than
  \<^verbatim>\<open>Replica\<close> and the ISR has at least \<^verbatim>\<open>Replica\<close> nodes. Whenever an addition is
  proposed, or some replica id of \<^verbatim>\<open>RaftIDs\<close> is the id of no member (\<^verbatim>\<open>anyJoined\<close>), or the
  members are at most \<^verbatim>\<open>Replica\<close>, or the ISR is smaller than \<^verbatim>\<open>Replica\<close>, the pass calls
  \<^verbatim>\<open>tryCheckNamespaces\<close> and proposes no removal.
\<close>

theorem syncMembers_remove_guard:
  "(ProposeRemoveMember name m
      \<in> set (syncMembers cl r mgr meta (Replica meta \<le> int (length (GetISR meta)))) \<longrightarrow>
      m \<in> set (getNamespaceRaftMembers mgr meta) \<and>
      (\<forall>name' m'. ProposeAddMember name' m'
         \<notin> set (syncMembers cl r mgr meta (Replica meta \<le> int (length (GetISR meta))))) \<and>
      Replica meta < int (length (getNamespaceRaftMembers mgr meta)) \<and>
      Replica meta \<le> int (length (GetISR meta))) \<and>
   ((\<exists>name' m'. ProposeAddMember name' m'
         \<in> set (syncMembers cl r mgr meta (Replica meta \<le> int (length (GetISR meta))))) \<or>
    (\<exists>(nid, rid)\<in>set (RaftIDs meta). \<forall>x\<in>set (getNamespaceRaftMembers mgr meta). ID x \<noteq> rid) \<or>
    int (length (getNamespaceRaftMembers mgr meta)) \<le> Replica meta \<or>
    int (length (GetISR meta)) < Replica meta \<longrightarrow>
      TryCheckNamespaces
        \<in> set (syncMembers cl r mgr meta (Replica meta \<le> int (length (GetISR meta)))) \<and>
      (\<forall>name' m'. ProposeRemoveMember name' m'
         \<notin> set (syncMembers cl r mgr meta (Replica meta \<le> int (length (GetISR meta))))))"
proof -
  let ?members = "getNamespaceRaftMembers mgr meta"
  let ?added = "addMissingMembers cl r mgr meta ?members (RaftIDs meta) False"
  let ?missing = "\<exists>(nid, rid)\<in>set (RaftIDs meta). \<forall>x\<in>set ?members. ID x \<noteq> rid"
  let ?retry = "?missing \<or> int (length ?members) \<le> Replica meta
     \<or> \<not> Replica meta \<le> int (length (GetISR meta))"
  let ?out = "syncMembers cl r mgr meta (Replica meta \<le> int (length (GetISR meta)))"
  have anyJoined: "fst ?added = ?missing"
    by (simp only: addMissingMembers_fst simp_thms)
  have out: "?out = (if ?retry then snd ?added @ [TryCheckNamespaces]
                     else snd ?added @ removeExtraMembers cl mgr meta ?members)"
    unfolding anyJoined [symmetric] by (rule syncMembers_unfold)
  have noRem: "ProposeRemoveMember n x \<notin> set (snd ?added)" for n x
    using addMissingMembers_events [of "ProposeRemoveMember n x"] by blast
  have noAdd: "ProposeAddMember n x \<notin> set (removeExtraMembers cl mgr meta ?members)" for n x
    using removeExtraMembers_events [of "ProposeAddMember n x"] by blast
  have addJoined: "ProposeAddMember n x \<in> set (snd ?added) \<Longrightarrow> ?missing" for n x
    using addMissingMembers_events [of "ProposeAddMember n x"] anyJoined by blast
  show ?thesis
  proof (cases ?retry)
    case True
    then have o: "?out = snd ?added @ [TryCheckNamespaces]" using out by simp
    have a: "ProposeRemoveMember n x \<notin> set ?out" for n x
      unfolding o using noRem by simp
    have b: "TryCheckNamespaces \<in> set ?out" unfolding o by simp
    from a b show ?thesis by blast
  next
    case False
    then have o: "?out = snd ?added @ removeExtraMembers cl mgr meta ?members" using out by simp
    have a: "ProposeAddMember n x \<notin> set ?out" for n x
      unfolding o using noAdd addJoined False by auto
    have b: "ProposeRemoveMember name m \<in> set ?out \<Longrightarrow> m \<in> set ?members"
      unfolding o using noRem removeExtraMembers_events [of "ProposeRemoveMember name m"] by auto
    from a b False show ?thesis by auto
  qed
qed

text \<open>
  The spec's scenarios 4 and 3: with the members of \<open>A\<close>, \<open>B\<close>, \<open>C\<close> and an extraneous
  member 9 the pass proposes the removal of member 9; with the members of \<open>A\<close> and \<open>B\<close>
  only it proposes the addition of \<open>C\<close> and schedules a retry.
\<close>

theorem syncMembers_remove_guard_witness:
  "syncMembers (exCluster (\<lambda>ip. Inr [])) (exRegister exMeta)
     (exMgr (exReplica [exMember ''A'' 1, exMember ''B'' 2, exMember ''C'' 3, exMember ''X'' 9]
               (Some (exMember ''A'' 1))))
     exMeta (Replica exMeta \<le> int (length (GetISR exMeta)))
     = [ProposeRemoveMember ''ns-0'' (exMember ''X'' 9)] \<and>
   exMember ''X'' 9 \<in> set (getNamespaceRaftMembers
     (exMgr (exReplica [exMember ''A'' 1, exMember ''B'' 2, exMember ''C'' 3, exMember ''X'' 9]
               (Some (exMember ''A'' 1)))) exMeta) \<and>
   Replica exMeta < int (length (getNamespaceRaftMembers
     (exMgr (exReplica [exMember ''A'' 1, exMember ''B'' 2, exMember ''C'' 3, exMember ''X'' 9]
               (Some (exMember ''A'' 1)))) exMeta)) \<and>
   Replica exMeta \<le> int (length (GetISR exMeta)) \<and>
   syncMembers (exCluster (\<lambda>ip. Inr [])) (exRegister exMeta)
     (exMgr (exReplica [exMember ''A'' 1, exMember ''B'' 2] (Some (exMember ''A'' 1))))
     exMeta (Replica exMeta \<le> int (length (GetISR exMeta)))
     = [ProposeAddMember ''ns-0'' (exMember ''C'' 3), TryCheckNamespaces]"
  using syncMembers_remove_guard [of "''ns-0''" "exMember ''X'' 9" "exCluster (\<lambda>ip. Inr [])" "exRegister exMeta"
      "exMgr (exReplica [exMember ''A'' 1, exMember ''B'' 2, exMember ''C'' 3, exMember ''X'' 9]
               (Some (exMember ''A'' 1)))" exMeta]
    syncMembers_remove_guard [of "''ns-0''" "exMember ''X'' 9" "exCluster (\<lambda>ip. Inr [])" "exRegister exMeta"
      "exMgr (exReplica [exMember ''A'' 1, exMember ''B'' 2] (Some (exMember ''A'' 1)))" exMeta]
    ex_sync_remove ex_sync_add
  by simp


text \<open>
  C4. For a running local replica whose raft leader is self (register id not 0, as
  \<^verbatim>\<open>Start\<close> requires) and whose meta has self in the ISR: the pass calls
  \<^verbatim>\<open>transferMyNamespaceLeader\<close> for \<^verbatim>\<open>ISR[0]\<close>, and does nothing else, when
  \<^verbatim>\<open>len(ISR) >= Replica\<close> and \<^verbatim>\<open>ISR[0]\<close> is not self; otherwise it runs the member sync,
  which never transfers the leader, so no transfer is made when \<^verbatim>\<open>ISR[0]\<close> is self.
  \<^verbatim>\<open>transferMyNamespaceLeader\<close> calls \<^verbatim>\<open>TransferMyLeader\<close> of the replica with the
  register id and the replica id of \<^verbatim>\<open>ISR[0]\<close>, and makes no call when \<^verbatim>\<open>RaftIDs\<close> has no
  entry for \<^verbatim>\<open>ISR[0]\<close>.
\<close>

theorem checkNamespace_leader_transfer:
  assumes "GetNamespaceAndPartition cl name = (namespace, pid)" and "namespace \<noteq> []"
    and "GetNamespacePartInfo r namespace pid = Inr meta"
    and "GetNamespaceNode mgr (GetDesp meta) = Some nsNode"
    and "GetLeadMember nsNode = Some lead" and "NodeID lead = RegID me" and "RegID me \<noteq> 0"
    and "node_ID me \<in> set (GetISR meta)"
  shows
   "(Replica meta \<le> int (length (GetISR meta)) \<and> GetISR meta ! 0 \<noteq> node_ID me \<longrightarrow>
       checkNamespace cl me r mgr name localNamespace
         = transferMyNamespaceLeader cl mgr meta (GetISR meta ! 0)) \<and>
    (\<not> (Replica meta \<le> int (length (GetISR meta)) \<and> GetISR meta ! 0 \<noteq> node_ID me) \<longrightarrow>
       checkNamespace cl me r mgr name localNamespace
         = syncMembers cl r mgr meta (Replica meta \<le> int (length (GetISR meta))) \<and>
       (\<forall>n a b. TransferMyLeader n a b \<notin> set (checkNamespace cl me r mgr name localNamespace))) \<and>
    (GetISR meta ! 0 = node_ID me \<longrightarrow>
       (\<forall>n a b. TransferMyLeader n a b \<notin> set (checkNamespace cl me r mgr name localNamespace))) \<and>
    (\<forall>toRaftID. map_of (RaftIDs meta) (GetISR meta ! 0) = Some toRaftID \<longrightarrow>
       transferMyNamespaceLeader cl mgr meta (GetISR meta ! 0)
         = [TransferMyLeader (FullName nsNode) (ExtractRegIDFromGenID cl (GetISR meta ! 0)) toRaftID]) \<and>
    (map_of (RaftIDs meta) (GetISR meta ! 0) = None \<longrightarrow>
       transferMyNamespaceLeader cl mgr meta (GetISR meta ! 0) = [])"
proof -
  have leader: "getNamespaceRaftLeader mgr meta = RegID me"
    using assms(4-6) by (simp add: getNamespaceRaftLeader_def)
  note unfold = checkNamespace_leader [OF assms(1-3) leader assms(7,8), of localNamespace]
  have a: "Replica meta \<le> int (length (GetISR meta)) \<and> GetISR meta ! 0 \<noteq> node_ID me \<longrightarrow>
       checkNamespace cl me r mgr name localNamespace
         = transferMyNamespaceLeader cl mgr meta (GetISR meta ! 0)"
    using unfold by simp
  have b: "\<not> (Replica meta \<le> int (length (GetISR meta)) \<and> GetISR meta ! 0 \<noteq> node_ID me) \<longrightarrow>
       checkNamespace cl me r mgr name localNamespace
         = syncMembers cl r mgr meta (Replica meta \<le> int (length (GetISR meta))) \<and>
       (\<forall>n a b. TransferMyLeader n a b \<notin> set (checkNamespace cl me r mgr name localNamespace))"
    using unfold syncMembers_no_transfer by simp
  have c: "GetISR meta ! 0 = node_ID me \<longrightarrow>
       (\<forall>n a b. TransferMyLeader n a b \<notin> set (checkNamespace cl me r mgr name localNamespace))"
    using b by blast
  have d: "\<forall>toRaftID. map_of (RaftIDs meta) (GetISR meta ! 0) = Some toRaftID \<longrightarrow>
       transferMyNamespaceLeader cl mgr meta (GetISR meta ! 0)
         = [TransferMyLeader (FullName nsNode) (ExtractRegIDFromGenID cl (GetISR meta ! 0)) toRaftID]"
    using assms(4) by (simp add: transferMyNamespaceLeader_def)
  have e: "map_of (RaftIDs meta) (GetISR meta ! 0) = None \<longrightarrow>
       transferMyNamespaceLeader cl mgr meta (GetISR meta ! 0) = []"
    using assms(4) by (simp add: transferMyNamespaceLeader_def)
  from a b c d e show ?thesis by (intro conjI)
qed


text \<open>
  The spec's scenario 2 (self is \<open>B\<close> and leads, the ISR starts with \<open>A\<close>: one transfer to
  \<open>A\<close>); self is \<open>A\<close> and leads (no transfer, the member sync finds nothing to do but the
  retry); and \<open>B\<close> leads while \<^verbatim>\<open>RaftIDs\<close> has no entry for \<open>A\<close> (no call).
\<close>

theorem checkNamespace_leader_transfer_witness:
  "checkNamespace (exCluster (\<lambda>ip. Inr [])) (exNode ''B'') (exRegister exMeta)
     (exMgr (exReplica [exMember ''A'' 1, exMember ''B'' 2, exMember ''C'' 3]
               (Some (exMember ''B'' 2))))
     ''ns-0''
     (exReplica [exMember ''A'' 1, exMember ''B'' 2, exMember ''C'' 3] (Some (exMember ''B'' 2)))
   = [TransferMyLeader ''ns-0'' 1 1] \<and>
   checkNamespace (exCluster (\<lambda>ip. Inr [])) (exNode ''A'') (exRegister exMeta)
     (exMgr (exReplica [exMember ''A'' 1, exMember ''B'' 2, exMember ''C'' 3]
               (Some (exMember ''A'' 1))))
     ''ns-0''
     (exReplica [exMember ''A'' 1, exMember ''B'' 2, exMember ''C'' 3] (Some (exMember ''A'' 1)))
   = [TryCheckNamespaces] \<and>
   checkNamespace (exCluster (\<lambda>ip. Inr [])) (exNode ''B'')
     (exRegister (exMeta\<lparr>RaftIDs := [(''B'', 2), (''C'', 3)]\<rparr>))
     (exMgr (exReplica [exMember ''B'' 2, exMember ''C'' 3] (Some (exMember ''B'' 2))))
     ''ns-0''
     (exReplica [exMember ''B'' 2, exMember ''C'' 3] (Some (exMember ''B'' 2)))
   = []"
  using
    checkNamespace_leader_transfer [where cl = "exCluster (\<lambda>ip. Inr [])" and me = "exNode ''B''" and r = "exRegister exMeta"
      and mgr = "exMgr (exReplica [exMember ''A'' 1, exMember ''B'' 2, exMember ''C'' 3]
               (Some (exMember ''B'' 2)))"
      and name = "''ns-0''" and namespace = "''ns''" and pid = 0 and meta = exMeta
      and nsNode = "exReplica [exMember ''A'' 1, exMember ''B'' 2, exMember ''C'' 3]
               (Some (exMember ''B'' 2))"
      and lead = "exMember ''B'' 2"
      and localNamespace = "exReplica [exMember ''A'' 1, exMember ''B'' 2, exMember ''C'' 3]
               (Some (exMember ''B'' 2))"]
    checkNamespace_leader_transfer [where cl = "exCluster (\<lambda>ip. Inr [])" and me = "exNode ''A''" and r = "exRegister exMeta"
      and mgr = "exMgr (exReplica [exMember ''A'' 1, exMember ''B'' 2, exMember ''C'' 3]
               (Some (exMember ''A'' 1)))"
      and name = "''ns-0''" and namespace = "''ns''" and pid = 0 and meta = exMeta
      and nsNode = "exReplica [exMember ''A'' 1, exMember ''B'' 2, exMember ''C'' 3]
               (Some (exMember ''A'' 1))"
      and lead = "exMember ''A'' 1"
      and localNamespace = "exReplica [exMember ''A'' 1, exMember ''B'' 2, exMember ''C'' 3]
               (Some (exMember ''A'' 1))"]
    checkNamespace_leader_transfer [where cl = "exCluster (\<lambda>ip. Inr [])" and me = "exNode ''B''"
      and r = "exRegister (exMeta\<lparr>RaftIDs := [(''B'', 2), (''C'', 3)]\<rparr>)"
      and mgr = "exMgr (exReplica [exMember ''B'' 2, exMember ''C'' 3] (Some (exMember ''B'' 2)))"
      and name = "''ns-0''" and namespace = "''ns''" and pid = 0
      and meta = "exMeta\<lparr>RaftIDs := [(''B'', 2), (''C'', 3)]\<rparr>"
      and nsNode = "exReplica [exMember ''B'' 2, exMember ''C'' 3] (Some (exMember ''B'' 2))"
      and lead = "exMember ''B'' 2"
      and localNamespace = "exReplica [exMember ''B'' 2, exMember ''C'' 3] (Some (exMember ''B'' 2))"]
  by (simp add: syncMembers_def Let_def getNamespaceRaftMembers_def
        transferMyNamespaceLeader_def
        exRegister_def exNode_def exCluster_def
        GetDesp_ns0 exMgr_def exReplica_def exMeta_def exMember_def GetISR_def regIDOf_def)

subsection \<open>Replica configuration\<close>

lemma seedNodesLoop_spec:
  "map_of (RaftIDs nsInfo) (node_ID me) = Some raftID \<Longrightarrow>
   seedNodesLoop cl me r nsInfo raftID isr seeds
     = seeds @ List.map_filter (spec_seed cl me r nsInfo) isr"
proof (induction isr arbitrary: seeds)
  case Nil
  then show ?case by (simp add: List.map_filter_simps)
next
  case (Cons nid isr)
  have l: "lookup0 (RaftIDs nsInfo) (node_ID me) = raftID"
    using Cons.prems by (simp add: lookup0_def)
  show ?case
  proof (cases "nid = node_ID me")
    case True
    then show ?thesis using Cons.IH [OF Cons.prems] l
      by (simp add: List.map_filter_simps spec_seed_def)
  next
    case False
    show ?thesis
    proof (cases "map_of (RaftIDs nsInfo) nid")
      case None
      then show ?thesis using False Cons.IH [OF Cons.prems]
        by (simp add: List.map_filter_simps spec_seed_def)
    next
      case (Some rid)
      show ?thesis
      proof (cases "GetNodeInfo r nid")
        case (Inl err)
        then show ?thesis using False Some Cons.IH [OF Cons.prems]
          by (simp add: List.map_filter_simps spec_seed_def getRaftAddrForNode_def)
      next
        case (Inr node)
        then show ?thesis using False Some Cons.IH [OF Cons.prems]
          by (simp add: List.map_filter_simps spec_seed_def getRaftAddrForNode_def)
      qed
    qed
  qed
qed


text \<open>
  C7. \<^verbatim>\<open>prepareNamespaceConf\<close> returns \<^verbatim>\<open>ErrNamespaceConfInvalid\<close> iff \<^verbatim>\<open>RaftIDs\<close> has no
  entry for self or the list of seeds is empty, and it returns no other error. Otherwise
  it returns a config whose \<^verbatim>\<open>Replicator\<close> is \<^verbatim>\<open>Replica\<close>, whose \<^verbatim>\<open>GroupID\<close> is
  \<^verbatim>\<open>uint64(MinGID) + uint64(Partition)\<close> and whose \<^verbatim>\<open>SeedNodes\<close> are the seeds of the ISR
  entries in the order of the ISR, an entry without a replica id or without a raft
  address being left out.
\<close>

theorem prepareNamespaceConf_result:
  "(prepareNamespaceConf cl me r nsInfo = Inl ErrNamespaceConfInvalid) =
     (map_of (RaftIDs nsInfo) (node_ID me) = None \<or>
      List.map_filter (spec_seed cl me r nsInfo) (GetISR nsInfo) = []) \<and>
   (\<forall>e. prepareNamespaceConf cl me r nsInfo = Inl e \<longrightarrow> e = ErrNamespaceConfInvalid) \<and>
   (\<forall>nsConf. prepareNamespaceConf cl me r nsInfo = Inr nsConf \<longrightarrow>
      Replicator nsConf = Replica nsInfo \<and>
      ConfGroupID nsConf = word_of_int (MinGID nsInfo) + word_of_int (Partition nsInfo) \<and>
      SeedNodes nsConf = List.map_filter (spec_seed cl me r nsInfo) (GetISR nsInfo))"
proof (cases "map_of (RaftIDs nsInfo) (node_ID me)")
  case None
  then show ?thesis by (simp add: prepareNamespaceConf_def)
next
  case (Some raftID)
  note loop = seedNodesLoop_spec [OF Some, of cl r "GetISR nsInfo" "[]"]
  show ?thesis
  proof (cases "List.map_filter (spec_seed cl me r nsInfo) (GetISR nsInfo) = []")
    case True
    then show ?thesis using Some loop by (simp add: prepareNamespaceConf_def Let_def)
  next
    case False
    then show ?thesis using Some loop by (auto simp add: prepareNamespaceConf_def Let_def)
  qed
qed


text \<open>
  Self is \<open>C\<close> and the registry cannot resolve \<open>B\<close>: the seeds are those of \<open>A\<close> and \<open>C\<close>.
  A node \<open>D\<close> without an entry in \<^verbatim>\<open>RaftIDs\<close>, and an empty ISR, give
  \<^verbatim>\<open>ErrNamespaceConfInvalid\<close>.
\<close>

theorem prepareNamespaceConf_result_witness:
  "prepareNamespaceConf (exCluster (\<lambda>ip. Inr [])) (exNode ''C'')
     ((exRegister exMeta)\<lparr>GetNodeInfo :=
        (\<lambda>nid. if nid = ''B'' then Inl ''not found'' else Inr (exNode nid))\<rparr>) exMeta
   = Inr \<lparr>BaseName = ''ns'', ConfName = ''ns-0'', ConfEngType = [], ConfPartitionNum = 1,
          Replicator = 3, ConfGroupID = 100,
          SeedNodes = [\<lparr>SeedNodeID = 1, ReplicaID = 1, RaftAddr = ''raft-A''\<rparr>,
                       \<lparr>SeedNodeID = 3, ReplicaID = 3, RaftAddr = ''raft-C''\<rparr>]\<rparr> \<and>
   prepareNamespaceConf (exCluster (\<lambda>ip. Inr [])) (exNode ''D'') (exRegister exMeta) exMeta
   = Inl ErrNamespaceConfInvalid \<and>
   prepareNamespaceConf (exCluster (\<lambda>ip. Inr [])) (exNode ''C'') (exRegister exMeta)
     (exMeta\<lparr>ISR := []\<rparr>)
   = Inl ErrNamespaceConfInvalid"
proof -
  have a: "prepareNamespaceConf (exCluster (\<lambda>ip. Inr [])) (exNode ''C'')
     ((exRegister exMeta)\<lparr>GetNodeInfo :=
        (\<lambda>nid. if nid = ''B'' then Inl ''not found'' else Inr (exNode nid))\<rparr>) exMeta
   = Inr \<lparr>BaseName = ''ns'', ConfName = ''ns-0'', ConfEngType = [], ConfPartitionNum = 1,
          Replicator = 3, ConfGroupID = 100,
          SeedNodes = [\<lparr>SeedNodeID = 1, ReplicaID = 1, RaftAddr = ''raft-A''\<rparr>,
                       \<lparr>SeedNodeID = 3, ReplicaID = 3, RaftAddr = ''raft-C''\<rparr>]\<rparr>"
    by (simp add: prepareNamespaceConf_def Let_def getRaftAddrForNode_def GetDesp_ns0
          exRegister_def exNode_def exCluster_def exMeta_def GetISR_def regIDOf_def)
  from a
    prepareNamespaceConf_result [of "exCluster (\<lambda>ip. Inr [])" "exNode ''C''"
      "(exRegister exMeta)\<lparr>GetNodeInfo :=
        (\<lambda>nid. if nid = ''B'' then Inl ''not found'' else Inr (exNode nid))\<rparr>" exMeta]
    prepareNamespaceConf_result [of "exCluster (\<lambda>ip. Inr [])" "exNode ''D''" "exRegister exMeta" exMeta]
    prepareNamespaceConf_result [of "exCluster (\<lambda>ip. Inr [])" "exNode ''C''" "exRegister exMeta" "exMeta\<lparr>ISR := []\<rparr>"]
  show ?thesis
    by (simp add: List.map_filter_simps exNode_def exMeta_def GetISR_def)
qed

subsection \<open>Join protocol\<close>

lemma scanMembers_snd:
  "snd (scanMembers me nsInfo raftID n mems (memsMap, alreadyJoined)) =
     (alreadyJoined \<or>
      ((\<exists>m\<in>set mems. NodeID m = RegID me \<and> GroupName m = GetDesp nsInfo \<and> ID m = raftID) \<and>
       n > length (GetISR nsInfo) div 2))"
  by (induction mems arbitrary: memsMap alreadyJoined) auto

lemma scanMembers_fst:
  "(fst (scanMembers me nsInfo raftID n mems (memsMap, alreadyJoined)) k \<noteq> None) =
     (memsMap k \<noteq> None \<or> (\<exists>m\<in>set mems. NodeID m = k))"
  by (induction mems arbitrary: memsMap alreadyJoined) auto

lemma cover_mod:
  assumes "i < (n::nat)"
  shows "\<exists>k. retry \<le> k \<and> k < retry + n \<and> k mod n = i"
proof -
  define q where "q = retry div n"
  define t where "t = retry mod n"
  have r: "retry = q * n + t" by (simp add: q_def t_def)
  have t: "t < n" using assms by (simp add: t_def)
  show ?thesis
  proof (cases "t \<le> i")
    case True
    have "(q * n + i) mod n = i" using assms by simp
    moreover have "retry \<le> q * n + i" using r True by simp
    moreover have "q * n + i < retry + n" using r assms by simp
    ultimately show ?thesis by blast
  next
    case False
    have "(Suc q * n + i) mod n = i"
      using mod_mult_self3 [of "Suc q" n i] assms by simp
    moreover have "retry \<le> Suc q * n + i" using r t by simp
    moreover have "Suc q * n + i < retry + n" using r False by simp
    ultimately show ?thesis by blast
  qed
qed

lemma pickRemote_spec:
  "\<forall>k. (mm k \<noteq> None) = (k \<in> NodeID ` set mems) \<Longrightarrow> isr \<noteq> [] \<Longrightarrow> cnt \<le> length isr \<Longrightarrow>
   \<exists>rem' retry'. pickRemote cl me mm isr retry cnt remote = Inr (rem', retry') \<and>
     retry < retry' \<and> retry' - retry \<le> length isr + 1 - cnt \<and>
     rem' = isr ! ((retry' - 1) mod length isr) \<and>
     (\<forall>k. retry \<le> k \<and> k + 1 < retry' \<longrightarrow> skipsEntry cl me mems (isr ! (k mod length isr))) \<and>
     (skipsEntry cl me mems rem' \<longrightarrow> retry' - retry = length isr + 1 - cnt)"
proof (induction cl me mm isr retry cnt remote rule: pickRemote.induct)
  case (1 cl me mm isr retry cnt remote)
  let ?x = "isr ! (retry mod length isr)"
  have n0: "length isr \<noteq> 0" using "1.prems" by simp
  note mm = "1.prems"(1)
  have sk: "skipsEntry cl me mems y = (y = node_ID me \<or> mm (ExtractRegIDFromGenID cl y) \<noteq> None)"
    for y using mm by (simp add: skipsEntry_def)
  show ?case
  proof (cases "skipsEntry cl me mems ?x")
    case False
    then have "pickRemote cl me mm isr retry cnt remote = Inr (?x, retry + 1)"
      using "1.prems"(2,3) n0 by (subst pickRemote.simps) (simp add: sk Let_def)
    then show ?thesis using False "1.prems"(2,3) by auto
  next
    case True
    have rec: "pickRemote cl me mm isr retry cnt remote
        = pickRemote cl me mm isr (retry + 1) (cnt + 1) ?x"
      using "1.prems"(2,3) n0 True by (subst pickRemote.simps) (auto simp add: sk Let_def)
    show ?thesis
    proof (cases "cnt + 1 \<le> length isr")
      case False
      then have c: "cnt = length isr" using "1.prems" by simp
      have "pickRemote cl me mm isr (retry + 1) (cnt + 1) ?x = Inr (?x, retry + 1)"
        using False by (subst pickRemote.simps) simp
      then show ?thesis using rec c True by auto
    next
      case le: True
      have ih: "\<exists>rem' retry'. pickRemote cl me mm isr (retry + 1) (cnt + 1) ?x = Inr (rem', retry') \<and>
         retry + 1 < retry' \<and> retry' - (retry + 1) \<le> length isr + 1 - (cnt + 1) \<and>
         rem' = isr ! ((retry' - 1) mod length isr) \<and>
         (\<forall>k. retry + 1 \<le> k \<and> k + 1 < retry' \<longrightarrow> skipsEntry cl me mems (isr ! (k mod length isr))) \<and>
         (skipsEntry cl me mems rem' \<longrightarrow> retry' - (retry + 1) = length isr + 1 - (cnt + 1))"
      proof (cases "?x = node_ID me")
        case True
        from "1.IH"(1) [OF "1.prems"(3) n0 refl True "1.prems"(1,2) le] show ?thesis .
      next
        case False
        with \<open>skipsEntry cl me mems ?x\<close> have m: "mm (ExtractRegIDFromGenID cl ?x) \<noteq> None"
          by (simp add: sk)
        from "1.IH"(2) [OF "1.prems"(3) n0 refl False m "1.prems"(1,2) le] show ?thesis .
      qed
      then obtain rem' retry' where
        p: "pickRemote cl me mm isr (retry + 1) (cnt + 1) ?x = Inr (rem', retry')"
        and a: "retry + 1 < retry'" and b: "retry' - (retry + 1) \<le> length isr + 1 - (cnt + 1)"
        and c: "rem' = isr ! ((retry' - 1) mod length isr)"
        and d: "\<forall>k. retry + 1 \<le> k \<and> k + 1 < retry' \<longrightarrow> skipsEntry cl me mems (isr ! (k mod length isr))"
        and e: "skipsEntry cl me mems rem' \<longrightarrow> retry' - (retry + 1) = length isr + 1 - (cnt + 1)"
        by blast
      have d': "\<forall>k. retry \<le> k \<and> k + 1 < retry' \<longrightarrow> skipsEntry cl me mems (isr ! (k mod length isr))"
      proof (intro allI impI)
        fix k assume k: "retry \<le> k \<and> k + 1 < retry'"
        show "skipsEntry cl me mems (isr ! (k mod length isr))"
        proof (cases "k = retry")
          case True
          then show ?thesis using \<open>skipsEntry cl me mems ?x\<close> by simp
        next
          case False
          then show ?thesis using k d by simp
        qed
      qed
      have e': "skipsEntry cl me mems rem' \<longrightarrow> retry' - retry = length isr + 1 - cnt"
        using e a le by auto
      have b': "retry' - retry \<le> length isr + 1 - cnt" using a b le by auto
      from p a b' c d' e' rec show ?thesis by auto
    qed
  qed
qed

lemma pickRemote_empty: "pickRemote cl me mm [] retry 0 remote = Inl DivideByZero"
  by (subst pickRemote.simps) simp

lemma pickRemote_no_skip:
  assumes all: "\<forall>k. retry \<le> k \<and> k < retry + length isr \<longrightarrow> skipsEntry cl me mems (isr ! (k mod length isr))"
    and x: "x \<in> set isr"
  shows "skipsEntry cl me mems x"
proof -
  from x obtain i where i: "i < length isr" and xi: "isr ! i = x"
    by (auto simp: in_set_conv_nth)
  from cover_mod [OF i, of retry] obtain k where
    "retry \<le> k" "k < retry + length isr" "k mod length isr = i" by blast
  with all xi show ?thesis by auto
qed

lemma requestJoinNamespaceGroup_unfold:
  "requestJoinNamespaceGroup cl me raftID nsInfo localNamespace remote =
     (if remote = node_ID me then []
      else [PostAddNode (fst (ExtractNodeInfoFromID cl remote))
              (snd (snd (snd (ExtractNodeInfoFromID cl remote))))
              (FillMyMemberInfo localNamespace
                 \<lparr>ID = raftID, NodeID = RegID me,
                  GroupID = word_of_int (MinGID nsInfo) + word_of_int (Partition nsInfo),
                  GroupName = GetDesp nsInfo, RaftURLs = []\<rparr>)])"
  by (cases "ExtractNodeInfoFromID cl remote") (simp add: requestJoinNamespaceGroup_def Let_def)


text \<open>
  C5. The claim: a round of the retry loop declares "already joined" exactly when a
  member has self's register id, the partition's name and self's replica id, and the
  members are more than half the ISR; only then does it test \<^verbatim>\<open>IsRaftSynced\<close>; otherwise
  it picks a remote round-robin over the ISR, skipping self and the nodes already in the
  members, and posts a join request.

  The last part fails where every entry is skipped. With the ISR \<open>[A]\<close>, self \<open>A\<close> and
  no member yet, the round is not "already joined", the picked remote is self and
  \<^verbatim>\<open>requestJoinNamespaceGroup\<close> returns before the request: nothing is posted. With the
  ISR \<open>[A, B]\<close>, self \<open>A\<close>, the member of \<open>B\<close> and \<^verbatim>\<open>retry\<close> 1, the loop ends on \<open>B\<close> after
  three entries and the request goes to \<open>B\<close>, a node already in the members.
\<close>

theorem joinRound_request_counterexample:
  "\<not> snd (scanMembers (exNode ''A'')
       (exMeta\<lparr>Replica := 1, RaftNodes := [''A''], ISR := [''A''], RaftIDs := [(''A'', 1)]\<rparr>)
       1 0 [] (Map.empty, False)) \<and>
   joinRound (exCluster (\<lambda>ip. Inr [])) (exNode ''A'')
     (exMeta\<lparr>Replica := 1, RaftNodes := [''A''], ISR := [''A''], RaftIDs := [(''A'', 1)]\<rparr>)
     (exReplica [] None) 1
     \<lparr>RoundMembers = [], RoundSynced = False, RoundStopped = False\<rparr> 0
   = Inr (Next (Some ErrNamespaceWaitingSync) 2, []) \<and>
   \<not> snd (scanMembers (exNode ''A'')
       (exMeta\<lparr>Replica := 2, RaftNodes := [''A'', ''B''], ISR := [''A'', ''B''],
              RaftIDs := [(''A'', 1), (''B'', 2)]\<rparr>)
       1 1 [exMember ''B'' 2] (Map.empty, False)) \<and>
   joinRound (exCluster (\<lambda>ip. Inr [])) (exNode ''A'')
     (exMeta\<lparr>Replica := 2, RaftNodes := [''A'', ''B''], ISR := [''A'', ''B''],
            RaftIDs := [(''A'', 1), (''B'', 2)]\<rparr>)
     (exReplica [exMember ''B'' 2] None) 1
     \<lparr>RoundMembers = [exMember ''B'' 2], RoundSynced = False, RoundStopped = False\<rparr> 1
   = Inr (Next (Some ErrNamespaceWaitingSync) 4,
          [PostAddNode ''B'' ''80''
             \<lparr>ID = 1, NodeID = 1, GroupID = 100, GroupName = ''ns-0'',
              RaftURLs = [''raft-local'']\<rparr>])"
  by (simp add: joinRound_def Let_def pickRemote.simps requestJoinNamespaceGroup_def GetDesp_ns0
        mod_Suc exCluster_def exNode_def exMeta_def exReplica_def exMember_def GetISR_def regIDOf_def)


text \<open>
  C5 as amended. \<^verbatim>\<open>alreadyJoined\<close> holds exactly when a member has self's register id,
  the partition's name and self's replica id and the members are more than half the
  ISR. Then the round tests \<^verbatim>\<open>IsRaftSynced\<close> (success on true, else it waits or exits)
  and posts nothing. Otherwise, the list being the ISR, or \<^verbatim>\<open>RaftNodes\<close> when the ISR is
  empty, and not empty: the round scans the list round-robin from position \<^verbatim>\<open>retry\<close>,
  at most its length plus one entries, past self and past the nodes of members, and
  stops at the first other entry; when the list has such an entry the remote is one.
  When every scanned entry was skipped, the remote is the last one scanned. The result
  does not depend on \<^verbatim>\<open>IsRaftSynced\<close>. \<^verbatim>\<open>requestJoinNamespaceGroup\<close> posts the member
  info to the remote unless the remote is self, when it posts nothing.
\<close>

theorem joinRound_cases:
  "snd (scanMembers me nsInfo raftID (length (RoundMembers rd)) (RoundMembers rd) (Map.empty, False)) =
     ((\<exists>m\<in>set (RoundMembers rd).
          NodeID m = RegID me \<and> GroupName m = GetDesp nsInfo \<and> ID m = raftID) \<and>
      length (GetISR nsInfo) div 2 < length (RoundMembers rd)) \<and>
   (snd (scanMembers me nsInfo raftID (length (RoundMembers rd)) (RoundMembers rd) (Map.empty, False)) \<longrightarrow>
      joinRound cl me nsInfo localNamespace raftID rd retry =
        Inr (if RoundSynced rd then Break None
             else if RoundStopped rd then Return ErrNamespaceExiting
             else Next (Some ErrNamespaceWaitingSync) retry, [])) \<and>
   (\<not> snd (scanMembers me nsInfo raftID (length (RoundMembers rd)) (RoundMembers rd) (Map.empty, False)) \<and>
    isr = (if length (GetISR nsInfo) = 0 then RaftNodes nsInfo else GetISR nsInfo) \<and> isr \<noteq> [] \<longrightarrow>
      (\<exists>remote retry'.
         joinRound cl me nsInfo localNamespace raftID rd retry =
           Inr (if RoundStopped rd then Return ErrNamespaceExiting
                else Next (Some ErrNamespaceWaitingSync) retry',
                requestJoinNamespaceGroup cl me raftID nsInfo localNamespace remote) \<and>
         retry < retry' \<and> retry' \<le> retry + length isr + 1 \<and>
         remote = isr ! ((retry' - 1) mod length isr) \<and>
         (\<forall>k. retry \<le> k \<and> k + 1 < retry' \<longrightarrow>
              skipsEntry cl me (RoundMembers rd) (isr ! (k mod length isr))) \<and>
         (skipsEntry cl me (RoundMembers rd) remote \<longrightarrow> retry' = retry + length isr + 1) \<and>
         ((\<exists>x\<in>set isr. \<not> skipsEntry cl me (RoundMembers rd) x) \<longrightarrow>
              \<not> skipsEntry cl me (RoundMembers rd) remote))) \<and>
   (\<forall>remote. requestJoinNamespaceGroup cl me raftID nsInfo localNamespace remote =
      (if remote = node_ID me then []
       else [PostAddNode (fst (ExtractNodeInfoFromID cl remote))
               (snd (snd (snd (ExtractNodeInfoFromID cl remote))))
               (FillMyMemberInfo localNamespace
                  \<lparr>ID = raftID, NodeID = RegID me,
                   GroupID = word_of_int (MinGID nsInfo) + word_of_int (Partition nsInfo),
                   GroupName = GetDesp nsInfo, RaftURLs = []\<rparr>)]))"
proof -
  let ?mems = "RoundMembers rd"
  let ?scan = "scanMembers me nsInfo raftID (length ?mems) ?mems (Map.empty, False)"
  have joined: "snd ?scan =
     ((\<exists>m\<in>set ?mems. NodeID m = RegID me \<and> GroupName m = GetDesp nsInfo \<and> ID m = raftID) \<and>
      length (GetISR nsInfo) div 2 < length ?mems)"
    by (simp add: scanMembers_snd)
  have a: "snd ?scan \<longrightarrow>
      joinRound cl me nsInfo localNamespace raftID rd retry =
        Inr (if RoundSynced rd then Break None
             else if RoundStopped rd then Return ErrNamespaceExiting
             else Next (Some ErrNamespaceWaitingSync) retry, [])"
    by (simp add: joinRound_def Let_def)
  have b: "\<not> snd ?scan \<and>
    isr = (if length (GetISR nsInfo) = 0 then RaftNodes nsInfo else GetISR nsInfo) \<and> isr \<noteq> [] \<longrightarrow>
      (\<exists>remote retry'.
         joinRound cl me nsInfo localNamespace raftID rd retry =
           Inr (if RoundStopped rd then Return ErrNamespaceExiting
                else Next (Some ErrNamespaceWaitingSync) retry',
                requestJoinNamespaceGroup cl me raftID nsInfo localNamespace remote) \<and>
         retry < retry' \<and> retry' \<le> retry + length isr + 1 \<and>
         remote = isr ! ((retry' - 1) mod length isr) \<and>
         (\<forall>k. retry \<le> k \<and> k + 1 < retry' \<longrightarrow> skipsEntry cl me ?mems (isr ! (k mod length isr))) \<and>
         (skipsEntry cl me ?mems remote \<longrightarrow> retry' = retry + length isr + 1) \<and>
         ((\<exists>x\<in>set isr. \<not> skipsEntry cl me ?mems x) \<longrightarrow> \<not> skipsEntry cl me ?mems remote))"
  proof (intro impI, elim conjE)
    assume nj: "\<not> snd ?scan"
      and isr: "isr = (if length (GetISR nsInfo) = 0 then RaftNodes nsInfo else GetISR nsInfo)"
      and ne: "isr \<noteq> []"
    have mm: "\<forall>k. (fst ?scan k \<noteq> None) = (k \<in> NodeID ` set ?mems)"
      by (intro allI, subst scanMembers_fst) auto
    from pickRemote_spec [OF mm ne, of 0 cl me retry "[]"]
    obtain remote retry' where
      p: "pickRemote cl me (fst ?scan) isr retry 0 [] = Inr (remote, retry')"
      and lt: "retry < retry'" and le: "retry' - retry \<le> length isr + 1 - 0"
      and r: "remote = isr ! ((retry' - 1) mod length isr)"
      and sk: "\<forall>k. retry \<le> k \<and> k + 1 < retry' \<longrightarrow> skipsEntry cl me ?mems (isr ! (k mod length isr))"
      and ex: "skipsEntry cl me ?mems remote \<longrightarrow> retry' - retry = length isr + 1 - 0"
      by auto
    have j: "joinRound cl me nsInfo localNamespace raftID rd retry =
           Inr (if RoundStopped rd then Return ErrNamespaceExiting
                else Next (Some ErrNamespaceWaitingSync) retry',
                requestJoinNamespaceGroup cl me raftID nsInfo localNamespace remote)"
      using nj p isr by (simp add: joinRound_def Let_def)
    have le': "retry' \<le> retry + length isr + 1" using le by simp
    have ex': "skipsEntry cl me ?mems remote \<longrightarrow> retry' = retry + length isr + 1"
      using ex lt by auto
    have cand: "(\<exists>x\<in>set isr. \<not> skipsEntry cl me ?mems x) \<longrightarrow> \<not> skipsEntry cl me ?mems remote"
    proof (intro impI notI)
      assume c: "\<exists>x\<in>set isr. \<not> skipsEntry cl me ?mems x" and s: "skipsEntry cl me ?mems remote"
      from s ex' have "retry' = retry + length isr + 1" by simp
      with sk have "\<forall>k. retry \<le> k \<and> k < retry + length isr \<longrightarrow>
          skipsEntry cl me ?mems (isr ! (k mod length isr))" by simp
      from pickRemote_no_skip [OF this] c show False by blast
    qed
    from j lt le' r sk ex' cand
    show "\<exists>remote retry'.
         joinRound cl me nsInfo localNamespace raftID rd retry =
           Inr (if RoundStopped rd then Return ErrNamespaceExiting
                else Next (Some ErrNamespaceWaitingSync) retry',
                requestJoinNamespaceGroup cl me raftID nsInfo localNamespace remote) \<and>
         retry < retry' \<and> retry' \<le> retry + length isr + 1 \<and>
         remote = isr ! ((retry' - 1) mod length isr) \<and>
         (\<forall>k. retry \<le> k \<and> k + 1 < retry' \<longrightarrow> skipsEntry cl me ?mems (isr ! (k mod length isr))) \<and>
         (skipsEntry cl me ?mems remote \<longrightarrow> retry' = retry + length isr + 1) \<and>
         ((\<exists>x\<in>set isr. \<not> skipsEntry cl me ?mems x) \<longrightarrow> \<not> skipsEntry cl me ?mems remote)"
      by blast
  qed
  have c: "\<forall>remote. requestJoinNamespaceGroup cl me raftID nsInfo localNamespace remote =
      (if remote = node_ID me then []
       else [PostAddNode (fst (ExtractNodeInfoFromID cl remote))
               (snd (snd (snd (ExtractNodeInfoFromID cl remote))))
               (FillMyMemberInfo localNamespace
                  \<lparr>ID = raftID, NodeID = RegID me,
                   GroupID = word_of_int (MinGID nsInfo) + word_of_int (Partition nsInfo),
                   GroupName = GetDesp nsInfo, RaftURLs = []\<rparr>)])"
    by (simp only: requestJoinNamespaceGroup_unfold simp_thms)
  from joined a b c show ?thesis by (intro conjI)
qed


text \<open>
  The spec's scenario 1, self \<open>C\<close>: with the three members and a synced replica the
  round ends the loop with success; with no member yet it posts the join request to
  \<open>A\<close>, the first entry of the ISR that is not skipped.
\<close>

theorem joinRound_cases_witness:
  "joinRound (exCluster (\<lambda>ip. Inr [])) (exNode ''C'') exMeta
     (exReplica [exMember ''A'' 1, exMember ''B'' 2, exMember ''C'' 3] None) 3
     \<lparr>RoundMembers = [exMember ''A'' 1, exMember ''B'' 2, exMember ''C'' 3],
      RoundSynced = True, RoundStopped = False\<rparr> 0
   = Inr (Break None, []) \<and>
   joinRound (exCluster (\<lambda>ip. Inr [])) (exNode ''C'') exMeta (exReplica [] None) 3
     \<lparr>RoundMembers = [], RoundSynced = True, RoundStopped = False\<rparr> 0
   = Inr (Next (Some ErrNamespaceWaitingSync) 1,
          [PostAddNode ''A'' ''80''
             \<lparr>ID = 3, NodeID = 3, GroupID = 100, GroupName = ''ns-0'',
              RaftURLs = [''raft-local'']\<rparr>]) \<and>
   \<not> skipsEntry (exCluster (\<lambda>ip. Inr [])) (exNode ''C'') [] ''A''"
  using
    joinRound_cases [of "exNode ''C''" exMeta 3
      "\<lparr>RoundMembers = [exMember ''A'' 1, exMember ''B'' 2, exMember ''C'' 3],
        RoundSynced = True, RoundStopped = False\<rparr>"
      "exCluster (\<lambda>ip. Inr [])"
      "exReplica [exMember ''A'' 1, exMember ''B'' 2, exMember ''C'' 3] None" 0 "ISR exMeta"]
    joinRound_cases [of "exNode ''C''" exMeta 3
      "\<lparr>RoundMembers = [], RoundSynced = True, RoundStopped = False\<rparr>"
      "exCluster (\<lambda>ip. Inr [])" "exReplica [] None" 0 "ISR exMeta"]
  by (simp add: joinRound_def Let_def pickRemote.simps requestJoinNamespaceGroup_def GetDesp_ns0
        skipsEntry_def mod_Suc
        exCluster_def exNode_def exMeta_def exReplica_def exMember_def GetISR_def regIDOf_def)

subsection \<open>Backpressure of the join\<close>

lemma filter_update_length:
  "i < length ps \<Longrightarrow>
   length (filter P (ps[i := x])) + (if P (ps ! i) then 1 else 0)
     = length (filter P ps) + (if P x then 1 else 0)"
proof (induction ps arbitrary: i)
  case Nil
  then show ?case by simp
next
  case (Cons p ps)
  show ?case
  proof (cases i)
    case 0
    then show ?thesis by simp
  next
    case (Suc j)
    with Cons.prems have "j < length ps" by simp
    from Cons.IH [OF this] Suc show ?thesis by simp
  qed
qed

lemma sint_of_nat_small: "m < 2 ^ 31 \<Longrightarrow> sint (of_nat m :: int32) = int m"
proof -
  assume m: "m < 2 ^ 31"
  have "signed_take_bit 31 (int m) = int m"
    by (rule signed_take_bit_int_eq_self) (use m in auto)
  then show ?thesis by (simp add: signed_of_nat)
qed

lemma filter_le: "length (filter (\<lambda>p. p = Joining) ps) \<le> length (filter (\<lambda>p. p \<noteq> Idle) ps)"
  by (induction ps) auto

lemma joinInv_step:
  assumes inv: "joinInv k s" and st: "joinStep s s'" and k: "k < 2 ^ 31"
  shows "joinInv k s'"
  using st
proof cases
  case (enter i ps n)
  let ?ph = "if sint (n + 1) > MAX_RAFT_JOIN_RUNNING then Busy else Joining"
  let ?busy = "length (filter (\<lambda>p. p \<noteq> Idle) ps)"
  let ?join = "length (filter (\<lambda>p. p = Joining) ps)"
  from inv enter have len: "length ps = k" and n: "n = of_nat ?busy" and j: "?join \<le> 5"
    by (simp_all add: joinInv_def)
  have b': "length (filter (\<lambda>p. p \<noteq> Idle) (ps[i := ?ph])) = Suc ?busy"
    using filter_update_length [OF enter(3), of "\<lambda>p. p \<noteq> Idle" ?ph] enter(4) by simp
  have "Suc ?busy \<le> length (ps[i := ?ph])" unfolding b' [symmetric] by (rule length_filter_le)
  then have small: "Suc ?busy < 2 ^ 31" using len k by simp
  have "n + 1 = of_nat (Suc ?busy)" using n by simp
  then have s: "sint (n + 1) = int (Suc ?busy)"
    using sint_of_nat_small [OF small] by (simp only:)
  have j': "length (filter (\<lambda>p. p = Joining) (ps[i := ?ph])) \<le> 5"
  proof (cases "sint (n + 1) > MAX_RAFT_JOIN_RUNNING")
    case True
    then show ?thesis
      using filter_update_length [OF enter(3), of "\<lambda>p. p = Joining" ?ph] enter(4) j by simp
  next
    case False
    then have "Suc ?busy \<le> 5" using s by (simp add: MAX_RAFT_JOIN_RUNNING_def)
    moreover have "?join \<le> ?busy" by (rule filter_le)
    ultimately show ?thesis
      using filter_update_length [OF enter(3), of "\<lambda>p. p = Joining" ?ph] enter(4) False by simp
  qed
  show ?thesis using enter(2) len n b' j' by (simp add: joinInv_def)
next
  case (leave i ps n)
  let ?busy = "length (filter (\<lambda>p. p \<noteq> Idle) ps)"
  let ?join = "length (filter (\<lambda>p. p = Joining) ps)"
  from inv leave have len: "length ps = k" and n: "n = of_nat ?busy" and j: "?join \<le> 5"
    by (simp_all add: joinInv_def)
  have b': "Suc (length (filter (\<lambda>p. p \<noteq> Idle) (ps[i := Idle]))) = ?busy"
    using filter_update_length [OF leave(3), of "\<lambda>p. p \<noteq> Idle" Idle] leave(4) by simp
  have n': "n - 1 = of_nat (length (filter (\<lambda>p. p \<noteq> Idle) (ps[i := Idle])))"
    unfolding n b' [symmetric] by simp
  have j': "length (filter (\<lambda>p. p = Joining) (ps[i := Idle])) \<le> 5"
    using filter_update_length [OF leave(3), of "\<lambda>p. p = Joining" Idle] j
    by (simp split: if_splits)
  show ?thesis using leave(2) len n' j' by (simp add: joinInv_def)
qed

lemma joinReachable_inv: "joinReachable k s \<Longrightarrow> k < 2 ^ 31 \<Longrightarrow> joinInv k s"
proof (induction rule: joinReachable.induct)
  case (init k)
  then show ?case by (simp add: joinInv_def)
next
  case (step k s s')
  then show ?case using joinInv_step by blast
qed


lemma six_calls: "joinReachable 6 (6, [Joining, Joining, Joining, Joining, Joining, Busy])"
proof -
  have s0: "joinReachable 6 (0, [Idle, Idle, Idle, Idle, Idle, Idle])"
    using joinReachable.init [of 6] by (simp add: numeral_Bit0 numeral_Bit1)
  have s1: "joinReachable 6 (1, [Joining, Idle, Idle, Idle, Idle, Idle])"
    using joinReachable.step [OF s0 joinStep.enter [of 0]] by (simp add: MAX_RAFT_JOIN_RUNNING_def)
  have s2: "joinReachable 6 (2, [Joining, Joining, Idle, Idle, Idle, Idle])"
    using joinReachable.step [OF s1 joinStep.enter [of 1]] by (simp add: MAX_RAFT_JOIN_RUNNING_def)
  have s3: "joinReachable 6 (3, [Joining, Joining, Joining, Idle, Idle, Idle])"
    using joinReachable.step [OF s2 joinStep.enter [of 2]] by (simp add: MAX_RAFT_JOIN_RUNNING_def)
  have s4: "joinReachable 6 (4, [Joining, Joining, Joining, Joining, Idle, Idle])"
    using joinReachable.step [OF s3 joinStep.enter [of 3]] by (simp add: MAX_RAFT_JOIN_RUNNING_def)
  have s5: "joinReachable 6 (5, [Joining, Joining, Joining, Joining, Joining, Idle])"
    using joinReachable.step [OF s4 joinStep.enter [of 4]] by (simp add: MAX_RAFT_JOIN_RUNNING_def)
  show ?thesis
    using joinReachable.step [OF s5 joinStep.enter [of 5]] by (simp add: MAX_RAFT_JOIN_RUNNING_def)
qed


text \<open>
  C6. \<^verbatim>\<open>MAX_RAFT_JOIN_RUNNING\<close> is 5. When self is not in \<^verbatim>\<open>Removings\<close> with the replica
  id of \<^verbatim>\<open>RaftIDs[self]\<close> and the incremented \<^verbatim>\<open>catchupRunning\<close> exceeds
  \<^verbatim>\<open>MAX_RAFT_JOIN_RUNNING\<close>, \<^verbatim>\<open>ensureJoinNamespaceGroup\<close> returns \<^verbatim>\<open>ErrCatchupRunningBusy\<close>
  with \<^verbatim>\<open>tryCheckNamespaces\<close> as its only call (so no join request), and the counter is
  back at its value. Hence, however fewer than \<open>2^31\<close> calls interleave their two atomic
  operations on the counter, at most 5 of them are past the check at any time.
\<close>

theorem ensureJoinNamespaceGroup_busy:
  "MAX_RAFT_JOIN_RUNNING = 5 \<and>
   ((\<forall>rm. map_of (Removings nsInfo) (node_ID (myNode c)) = Some rm \<longrightarrow>
          RemoveReplicaID rm \<noteq> lookup0 (RaftIDs nsInfo) (node_ID (myNode c))) \<and>
    MAX_RAFT_JOIN_RUNNING < sint (catchupRunning c + 1) \<longrightarrow>
      ensureJoinNamespaceGroup cl c nsInfo localNamespace rounds
        = Inr (Some ErrCatchupRunningBusy, c, [TryCheckNamespaces])) \<and>
   (joinReachable k (n, ps) \<and> k < 2 ^ 31 \<longrightarrow>
      length (filter (\<lambda>p. p = Joining) ps) \<le> 5)"
proof -
  have a: "(\<forall>rm. map_of (Removings nsInfo) (node_ID (myNode c)) = Some rm \<longrightarrow>
          RemoveReplicaID rm \<noteq> lookup0 (RaftIDs nsInfo) (node_ID (myNode c))) \<and>
    MAX_RAFT_JOIN_RUNNING < sint (catchupRunning c + 1) \<longrightarrow>
      ensureJoinNamespaceGroup cl c nsInfo localNamespace rounds
        = Inr (Some ErrCatchupRunningBusy, c, [TryCheckNamespaces])"
  proof (intro impI, elim conjE)
    assume r: "\<forall>rm. map_of (Removings nsInfo) (node_ID (myNode c)) = Some rm \<longrightarrow>
          RemoveReplicaID rm \<noteq> lookup0 (RaftIDs nsInfo) (node_ID (myNode c))"
      and b: "MAX_RAFT_JOIN_RUNNING < sint (catchupRunning c + 1)"
    have nr: "\<not> (case map_of (Removings nsInfo) (node_ID (myNode c)) of
                        None \<Rightarrow> False
                      | Some rm \<Rightarrow> RemoveReplicaID rm = lookup0 (RaftIDs nsInfo) (node_ID (myNode c)))"
      using r by (cases "map_of (Removings nsInfo) (node_ID (myNode c))") simp_all
    show "ensureJoinNamespaceGroup cl c nsInfo localNamespace rounds
        = Inr (Some ErrCatchupRunningBusy, c, [TryCheckNamespaces])"
      using nr b by (simp add: ensureJoinNamespaceGroup_def Let_def)
  qed
  have b: "joinReachable k (n, ps) \<and> k < 2 ^ 31 \<longrightarrow>
      length (filter (\<lambda>p. p = Joining) ps) \<le> 5"
    using joinReachable_inv [of k "(n, ps)"] by (simp add: joinInv_def)
  from a b show ?thesis by (simp add: MAX_RAFT_JOIN_RUNNING_def)
qed


text \<open>
  A coordinator whose counter is at 5 refuses the call. Six calls that enter one after
  the other: five are joining and the sixth is refused.
\<close>

theorem ensureJoinNamespaceGroup_busy_witness:
  "ensureJoinNamespaceGroup (exCluster (\<lambda>ip. Inr []))
     ((NewDataCoordinator ''cluster'' (exNode ''C'') (exMgr (exReplica [] None)))
        \<lparr>catchupRunning := 5\<rparr>)
     exMeta (exReplica [] None)
     [\<lparr>RoundMembers = [], RoundSynced = False, RoundStopped = False\<rparr>]
   = Inr (Some ErrCatchupRunningBusy,
          (NewDataCoordinator ''cluster'' (exNode ''C'') (exMgr (exReplica [] None)))
            \<lparr>catchupRunning := 5\<rparr>,
          [TryCheckNamespaces]) \<and>
   joinReachable 6 (6, [Joining, Joining, Joining, Joining, Joining, Busy]) \<and>
   length (filter (\<lambda>p. p = Joining) [Joining, Joining, Joining, Joining, Joining, Busy]) \<le> 5"
  using
    ensureJoinNamespaceGroup_busy [of exMeta "(NewDataCoordinator ''cluster'' (exNode ''C'') (exMgr (exReplica [] None)))
        \<lparr>catchupRunning := 5\<rparr>" "exCluster (\<lambda>ip. Inr [])" "exReplica [] None"
      "[\<lparr>RoundMembers = [], RoundSynced = False, RoundStopped = False\<rparr>]"
      6 6 "[Joining, Joining, Joining, Joining, Joining, Busy]"]
    six_calls
  by (simp add: NewDataCoordinator_def exMeta_def exNode_def MAX_RAFT_JOIN_RUNNING_def)


subsection \<open>Shutdown\<close>

text \<open>
  On the coordinator that \<^verbatim>\<open>NewDataCoordinator\<close> returns, which has no register, a call
  of \<^verbatim>\<open>Stop\<close> does not return: \<^verbatim>\<open>prepareLeavingCluster\<close> calls
  \<^verbatim>\<open>self.register.GetAllNamespaces()\<close> on the nil interface. Such a coordinator has no
  completed call of \<^verbatim>\<open>Stop\<close>.
\<close>

lemma Stop_without_register:
  "Stop cl (NewDataCoordinator cluster nodeInfo nsMgr) = Inl NilDereference"
  by (simp add: Stop_def prepareLeavingCluster_def NewDataCoordinator_def)

text \<open>
  C8. \<^verbatim>\<open>Stop\<close> is idempotent: for every coordinator state, with or without a register,
  when a call of \<^verbatim>\<open>Stop\<close> has returned, \<^verbatim>\<open>stopping\<close> is 1 and a second call returns
  without a panic, leaves the coordinator as it is and makes no call on a collaborator;
  in particular \<^verbatim>\<open>stopChan\<close> is not closed again.
\<close>

theorem Stop_second_call_noop:
  "Stop cl c = Inr (c', evs) \<Longrightarrow> stopping c' = 1 \<and> Stop cl c' = Inr (c', [])"
proof (cases "stopping c = 1")
  case True
  assume "Stop cl c = Inr (c', evs)"
  with True have "c' = c" by (simp add: Stop_def)
  with True show ?thesis by (simp add: Stop_def)
next
  case False
  assume s: "Stop cl c = Inr (c', evs)"
  show ?thesis
  proof (cases "register c")
    case None
    with False s show ?thesis by (simp add: Stop_def prepareLeavingCluster_def)
  next
    case (Some r)
    with False s have "stopping c' = 1"
      by (auto simp: Stop_def prepareLeavingCluster_def Let_def split: if_splits)
    then show ?thesis by (simp add: Stop_def)
  qed
qed

text \<open>
  Node \<open>A\<close> leads the partition of the scenario and has a register. The first \<^verbatim>\<open>Stop\<close>
  transfers the leader to \<open>B\<close>, stops the namespace manager, unregisters and closes
  \<^verbatim>\<open>stopChan\<close>; the second returns at once.
\<close>

theorem Stop_second_call_noop_witness:
  "Stop (exCluster (\<lambda>ip. Inr []))
     ((NewDataCoordinator ''cluster'' (exNode ''A'')
         (exMgr (exReplica [exMember ''A'' 1, exMember ''B'' 2, exMember ''C'' 3]
                   (Some (exMember ''A'' 1)))))
        \<lparr>register := Some (exRegister exMeta)\<rparr>)
   = Inr ((NewDataCoordinator ''cluster'' (exNode ''A'')
             (exMgr (exReplica [exMember ''A'' 1, exMember ''B'' 2, exMember ''C'' 3]
                       (Some (exMember ''A'' 1)))))
            \<lparr>register := Some (exRegister exMeta), stopping := 1, stopChanClosed := True\<rparr>,
          [TransferMyLeader ''ns-0'' 2 2, NSMgrStop, Unregister, RegisterStop]) \<and>
   Stop (exCluster (\<lambda>ip. Inr []))
     ((NewDataCoordinator ''cluster'' (exNode ''A'')
         (exMgr (exReplica [exMember ''A'' 1, exMember ''B'' 2, exMember ''C'' 3]
                   (Some (exMember ''A'' 1)))))
        \<lparr>register := Some (exRegister exMeta), stopping := 1, stopChanClosed := True\<rparr>)
   = Inr ((NewDataCoordinator ''cluster'' (exNode ''A'')
             (exMgr (exReplica [exMember ''A'' 1, exMember ''B'' 2, exMember ''C'' 3]
                       (Some (exMember ''A'' 1)))))
            \<lparr>register := Some (exRegister exMeta), stopping := 1, stopChanClosed := True\<rparr>,
          [])"
proof -
  have first: "Stop (exCluster (\<lambda>ip. Inr []))
     ((NewDataCoordinator ''cluster'' (exNode ''A'')
         (exMgr (exReplica [exMember ''A'' 1, exMember ''B'' 2, exMember ''C'' 3]
                   (Some (exMember ''A'' 1)))))
        \<lparr>register := Some (exRegister exMeta)\<rparr>)
   = Inr ((NewDataCoordinator ''cluster'' (exNode ''A'')
             (exMgr (exReplica [exMember ''A'' 1, exMember ''B'' 2, exMember ''C'' 3]
                       (Some (exMember ''A'' 1)))))
            \<lparr>register := Some (exRegister exMeta), stopping := 1, stopChanClosed := True\<rparr>,
          [TransferMyLeader ''ns-0'' 2 2, NSMgrStop, Unregister, RegisterStop])"
    by (simp add: Stop_def prepareLeavingCluster_def leavePartition_def Let_def
          getNamespaceRaftLeader_def transferMyNamespaceLeader_def FindSlice_def GetDesp_ns0
          NewDataCoordinator_def exRegister_def exNode_def exCluster_def
          exMgr_def exReplica_def exMeta_def exMember_def GetISR_def regIDOf_def)
  from Stop_second_call_noop [OF first] first show ?thesis by simp
qed


subsection \<open>Statistics\<close>

lemma appendISRStats_map:
  "appendISRStats stats nids = stats @ map (\<lambda>nid. \<lparr>HostName = [], StatNodeID = nid\<rparr>) nids"
  by (induction nids arbitrary: stats) auto


text \<open>
  C9. The claim: for a namespace and a partition \<open>part \<ge> 0\<close> of the registry, \<^verbatim>\<open>Stats\<close>
  returns one entry whose \<^verbatim>\<open>ISRStats\<close> list the ISR of the partition. The code lists
  \<^verbatim>\<open>RaftNodes\<close>: with \<open>C\<close> being removed, the ISR is \<open>[A, B]\<close> and the entry lists
  \<open>A\<close>, \<open>B\<close> and \<open>C\<close>.
\<close>

theorem Stats_ISR_counterexample:
  "Stats ((NewDataCoordinator ''cluster'' (exNode ''A'') (exMgr (exReplica [] None)))
            \<lparr>register := Some (exRegister
               (exMeta\<lparr>ISR := [''A'', ''B''], Removings := [(''C'', exRemoving 3)]\<rparr>))\<rparr>)
     ''ns'' 0
   = Inr [\<lparr>StatName = ''ns'', StatPartition = 0,
           ISRStats = [\<lparr>HostName = [], StatNodeID = ''A''\<rparr>,
                       \<lparr>HostName = [], StatNodeID = ''B''\<rparr>,
                       \<lparr>HostName = [], StatNodeID = ''C''\<rparr>]\<rparr>] \<and>
   GetISR (exMeta\<lparr>ISR := [''A'', ''B''], Removings := [(''C'', exRemoving 3)]\<rparr>) = [''A'', ''B'']"
  by (simp add: Stats_def NewDataCoordinator_def exRegister_def exMeta_def GetISR_def)


text \<open>
  C9 as amended. For a coordinator with a register, a namespace with a name that is not
  empty and a partition \<open>part \<ge> 0\<close>, both known to the registry, \<^verbatim>\<open>Stats\<close> returns one
  entry with the namespace, \<open>part\<close> and one \<^verbatim>\<open>ISRStat\<close> for each node of \<^verbatim>\<open>RaftNodes\<close>, in
  order, with an empty host name.
\<close>

theorem Stats_lists_RaftNodes:
  "register c = Some r \<Longrightarrow> namespace \<noteq> [] \<Longrightarrow>
   GetNamespaceMetaInfo r namespace = Inr meta \<Longrightarrow> 0 \<le> part \<Longrightarrow>
   GetNamespacePartInfo r namespace part = Inr nsInfo \<Longrightarrow>
   Stats c namespace part =
     Inr [\<lparr>StatName = namespace, StatPartition = part,
           ISRStats = map (\<lambda>nid. \<lparr>HostName = [], StatNodeID = nid\<rparr>) (RaftNodes nsInfo)\<rparr>]"
  by (simp add: Stats_def appendISRStats_map)


text \<open>The scenario's partition: the entry lists \<open>A\<close>, \<open>B\<close> and \<open>C\<close>.\<close>

theorem Stats_lists_RaftNodes_witness:
  "register ((NewDataCoordinator ''cluster'' (exNode ''A'') (exMgr (exReplica [] None)))
            \<lparr>register := Some (exRegister exMeta)\<rparr>) = Some (exRegister exMeta) \<and>
   GetNamespaceMetaInfo (exRegister exMeta) ''ns'' = Inr \<lparr>MetaPartitionNum = 1, MetaReplica = 3\<rparr> \<and>
   GetNamespacePartInfo (exRegister exMeta) ''ns'' 0 = Inr exMeta \<and>
   Stats ((NewDataCoordinator ''cluster'' (exNode ''A'') (exMgr (exReplica [] None)))
            \<lparr>register := Some (exRegister exMeta)\<rparr>) ''ns'' 0
   = Inr [\<lparr>StatName = ''ns'', StatPartition = 0,
           ISRStats = [\<lparr>HostName = [], StatNodeID = ''A''\<rparr>,
                       \<lparr>HostName = [], StatNodeID = ''B''\<rparr>,
                       \<lparr>HostName = [], StatNodeID = ''C''\<rparr>]\<rparr>]"
proof -
  have h1: "register ((NewDataCoordinator ''cluster'' (exNode ''A'') (exMgr (exReplica [] None)))
            \<lparr>register := Some (exRegister exMeta)\<rparr>) = Some (exRegister exMeta)"
    by simp
  have h2: "''ns'' \<noteq> []" by simp
  have h3: "GetNamespaceMetaInfo (exRegister exMeta) ''ns'' = Inr \<lparr>MetaPartitionNum = 1, MetaReplica = 3\<rparr>"
    by (simp add: exRegister_def)
  have h4: "(0::int) \<le> 0" by simp
  have h5: "GetNamespacePartInfo (exRegister exMeta) ''ns'' 0 = Inr exMeta"
    by (simp add: exRegister_def)
  from Stats_lists_RaftNodes [OF h1 h2 h3 h4 h5] h1 h3 h5 show ?thesis by (simp add: exMeta_def)
qed

end
